theory Spec2Isabelle
  imports Complex_Main
begin

section \<open>JavaScript values\<close>

text \<open>
  A JavaScript number is an IEEE double. It is modelled by the rational it denotes, or one of
  the three special values; the sign of zero is not tracked. Comparison, \<open>Math.round\<close>,
  \<open>Math.floor\<close>, \<open>Math.ceil\<close>, \<open>toFixed\<close> and \<open>toString(16)\<close> are functions of the
  denoted value, so they are written out below. Arithmetic that rounds (\<open>*\<close>, \<open>/\<close>,
  \<open>+\<close>, \<open>-\<close>, \<open>%\<close>, \<open>**\<close>, \<open>Math.sqrt\<close>) and the parsing and printing of decimal
  fractions belong to the engine and are fields of the \<open>host\<close> record further down.
\<close>

datatype jsnum = NaN | Fin rat | PInf | NInf

text \<open>
  A value that is not data is \<open>JForeign\<close>: a function, a symbol, or an object with
  behaviour of its own (a builtin prototype, an error object, a \<open>moment\<close> object). The code
  meets such values when it reads a member that a value inherits, when a script returns or
  throws one, and when a caller hands one in. The string names the value; what its methods and
  conversions do is the engine's business.
\<close>

datatype kind = FFunction | FSymbol | FObject

datatype jsval =
    Undefined
  | Null
  | JBool bool
  | JNum jsnum
  | JStr string
  | JArr "jsval list"
  | JObj "(string \<times> jsval) list"
  | JDate jsnum
  | JForeign kind string

text \<open>An exception: an error object of one of three builtin classes, or any other thrown
  value.\<close>

datatype exn = TypeError | SyntaxError | RangeError | Thrown jsval

datatype logEntry = LogError string | LogWarn string

definition typeof :: "jsval \<Rightarrow> string" where
  "typeof v =
     (case v of
        Undefined \<Rightarrow> ''undefined''
      | Null \<Rightarrow> ''object''
      | JBool _ \<Rightarrow> ''boolean''
      | JNum _ \<Rightarrow> ''number''
      | JStr _ \<Rightarrow> ''string''
      | JArr _ \<Rightarrow> ''object''
      | JObj _ \<Rightarrow> ''object''
      | JDate _ \<Rightarrow> ''object''
      | JForeign k _ \<Rightarrow>
          (case k of FFunction \<Rightarrow> ''function'' | FSymbol \<Rightarrow> ''symbol'' | FObject \<Rightarrow> ''object''))"

text \<open>\<open>ToBoolean\<close>: what \<open>!x\<close>, \<open>x && y\<close> and \<open>x || y\<close> test.\<close>

definition toBoolean :: "jsval \<Rightarrow> bool" where
  "toBoolean v =
     (case v of
        Undefined \<Rightarrow> False
      | Null \<Rightarrow> False
      | JBool b \<Rightarrow> b
      | JNum n \<Rightarrow> (n \<noteq> NaN \<and> n \<noteq> Fin 0)
      | JStr s \<Rightarrow> (s \<noteq> [])
      | JArr _ \<Rightarrow> True
      | JObj _ \<Rightarrow> True
      | JDate _ \<Rightarrow> True
      | JForeign _ _ \<Rightarrow> True)"

text \<open>\<open>IsCallable\<close>, and whether a value is an object rather than a primitive.\<close>

definition isCallable :: "jsval \<Rightarrow> bool" where
  "isCallable v = (case v of JForeign k _ \<Rightarrow> k = FFunction | _ \<Rightarrow> False)"

definition isObject :: "jsval \<Rightarrow> bool" where
  "isObject v =
     (case v of
        JArr _ \<Rightarrow> True
      | JObj _ \<Rightarrow> True
      | JDate _ \<Rightarrow> True
      | JForeign k _ \<Rightarrow> k \<noteq> FSymbol
      | _ \<Rightarrow> False)"

definition isNaN :: "jsnum \<Rightarrow> bool" where
  "isNaN n = (n = NaN)"

text \<open>\<open>x < y\<close> and \<open>x > y\<close> on numbers: false as soon as one side is \<open>NaN\<close>.\<close>

fun numLess :: "jsnum \<Rightarrow> jsnum \<Rightarrow> bool" where
  "numLess NaN _ = False"
| "numLess _ NaN = False"
| "numLess (Fin a) (Fin b) = (a < b)"
| "numLess (Fin _) PInf = True"
| "numLess (Fin _) NInf = False"
| "numLess PInf _ = False"
| "numLess NInf (Fin _) = True"
| "numLess NInf PInf = True"
| "numLess NInf NInf = False"

definition numGreater :: "jsnum \<Rightarrow> jsnum \<Rightarrow> bool" where
  "numGreater a b = numLess b a"

definition isInteger :: "rat \<Rightarrow> bool" where
  "isInteger r = (of_int \<lfloor>r\<rfloor> = r)"

subsection \<open>Printing integers\<close>

text \<open>The digits of a natural number in radix \<open>b\<close>, which is \<open>10\<close> or \<open>16\<close> here.\<close>

definition digitChar :: "nat \<Rightarrow> char" where
  "digitChar d = ''0123456789abcdef'' ! d"

fun natToRadix :: "nat \<Rightarrow> nat \<Rightarrow> string" where
  "natToRadix b n =
     (if b < 2 \<or> n < b then [digitChar n]
      else natToRadix b (n div b) @ [digitChar (n mod b)])"

declare natToRadix.simps [simp del]

definition intToRadix :: "nat \<Rightarrow> int \<Rightarrow> string" where
  "intToRadix b i = (if i < 0 then CHR ''-'' # natToRadix b (nat (- i)) else natToRadix b (nat i))"

subsection \<open>Strings\<close>

text \<open>
  \<open>String.prototype.replace\<close> with a string pattern replaces the first occurrence only, and
  expands \<open>$$\<close>, \<open>$&\<close>, \<open>$`\<close> and \<open>$'\<close> in the replacement text (there are no capture groups,
  so \<open>$1\<close> stays as it is).
\<close>

fun getSubstitution :: "string \<Rightarrow> string \<Rightarrow> string \<Rightarrow> string \<Rightarrow> string" where
  "getSubstitution matched pre post [] = []"
| "getSubstitution matched pre post [c] = [c]"
| "getSubstitution matched pre post (c # d # r) =
     (if c = CHR ''$'' \<and> d = CHR ''$'' then CHR ''$'' # getSubstitution matched pre post r
      else if c = CHR ''$'' \<and> d = CHR ''&'' then matched @ getSubstitution matched pre post r
      else if c = CHR ''$'' \<and> d = CHR 0x60 then pre @ getSubstitution matched pre post r
      else if c = CHR ''$'' \<and> d = CHR 0x27 then post @ getSubstitution matched pre post r
      else c # getSubstitution matched pre post (d # r))"

fun startsWith :: "string \<Rightarrow> string \<Rightarrow> bool" where
  "startsWith s [] = True"
| "startsWith [] (p # ps) = False"
| "startsWith (c # cs) (p # ps) = (c = p \<and> startsWith cs ps)"

text \<open>\<open>findFrom pat seen rest\<close>: the text before the first occurrence of \<open>pat\<close> in \<open>rest\<close>
  (with \<open>seen\<close>, reversed, in front of it) and the text after that occurrence.\<close>

fun findFrom :: "string \<Rightarrow> string \<Rightarrow> string \<Rightarrow> (string \<times> string) option" where
  "findFrom pat seen [] = (if pat = [] then Some (rev seen, []) else None)"
| "findFrom pat seen (c # cs) =
     (if startsWith (c # cs) pat then Some (rev seen, drop (length pat) (c # cs))
      else findFrom pat (c # seen) cs)"

definition includesStr :: "string \<Rightarrow> string \<Rightarrow> bool" where
  "includesStr s pat = (findFrom pat [] s \<noteq> None)"

definition replaceFirst :: "string \<Rightarrow> string \<Rightarrow> string \<Rightarrow> string" where
  "replaceFirst s pat repl =
     (case findFrom pat [] s of
        None \<Rightarrow> s
      | Some (pre, post) \<Rightarrow> pre @ getSubstitution pat pre post repl @ post)"

text \<open>Replacing every occurrence of a non-empty literal pattern, left to right, by a
  replacement text without \<open>$\<close> patterns: what \<open>replace(/{{/g, '{')\<close> and its like do.\<close>

fun replaceAll :: "string \<Rightarrow> string \<Rightarrow> string \<Rightarrow> string" where
  "replaceAll [] pat repl = []"
| "replaceAll (c # cs) pat repl =
     (if pat \<noteq> [] \<and> startsWith (c # cs) pat
      then repl @ replaceAll (drop (length pat) (c # cs)) pat repl
      else c # replaceAll cs pat repl)"


definition isDigit :: "char \<Rightarrow> bool" where
  "isDigit c = (48 \<le> (of_char c :: nat) \<and> (of_char c :: nat) \<le> 57)"

text \<open>The class \<open>\w\<close> of a regular expression: letters, digits and the underscore.\<close>

definition isWordChar :: "char \<Rightarrow> bool" where
  "isWordChar c =
     (let n = (of_char c :: nat)
      in (48 \<le> n \<and> n \<le> 57) \<or> (65 \<le> n \<and> n \<le> 90) \<or> (97 \<le> n \<and> n \<le> 122) \<or> n = 95)"

section \<open>The engine's builtins\<close>

text \<open>
  What the code calls and the repository does not define: the rounding arithmetic of doubles,
  the parsing and printing of decimal fractions, \<open>JSON\<close>, \<open>new Function\<close>, \<open>Date\<close> in the
  local time zone, the calendar library \<open>moment\<close> (whose objects have type \<open>'m\<close>), and
  whatever a foreign value does. Every function of the model takes them as the record \<open>h\<close>.

  A script run by \<open>new Function\<close> can do anything to the page it runs in. What it can
  see and change there is a state of type \<open>'w\<close>: \<open>runScript\<close> takes the state and the
  text and gives what the call returned or threw, and the state afterwards. Of that state
  the model reads what \<open>console.error\<close> and \<open>console.warn\<close> have become; the other
  builtins are taken to be what they were.
\<close>

text \<open>The hint of \<open>ToPrimitive\<close>.\<close>

datatype hint = HintString | HintNumber | HintDefault

text \<open>A method of the console: the console's own, which records the message, or a
  replacement, which records nothing and returns or throws.\<close>

datatype logger = Console | Replaced "exn option"

record ('m, 'w) host =
  parseFloatStr :: "string \<Rightarrow> jsnum"
  parseIntStr :: "string \<Rightarrow> jsnum"
  stringToNumber :: "string \<Rightarrow> jsnum"
  numberToString :: "jsnum \<Rightarrow> string"
  numMul :: "jsnum \<Rightarrow> jsnum \<Rightarrow> jsnum"
  numDiv :: "jsnum \<Rightarrow> jsnum \<Rightarrow> jsnum"
  numAdd :: "jsnum \<Rightarrow> jsnum \<Rightarrow> jsnum"
  numSub :: "jsnum \<Rightarrow> jsnum \<Rightarrow> jsnum"
  numRem :: "jsnum \<Rightarrow> jsnum \<Rightarrow> jsnum"
  numPow :: "jsnum \<Rightarrow> jsnum \<Rightarrow> jsnum"
  numSqrt :: "jsnum \<Rightarrow> jsnum"
  mathRandom :: "nat \<Rightarrow> jsnum"
  jsonParse :: "string \<Rightarrow> jsval option"
  jsonStringify :: "jsval \<Rightarrow> exn + jsval"
  customJson :: "jsval \<Rightarrow> jsval option"
  runScript :: "'w \<Rightarrow> string \<Rightarrow> (exn + jsval) \<times> 'w"
  errorLogger :: "'w \<Rightarrow> logger"
  warnLogger :: "'w \<Rightarrow> logger"
  foreignPrimitive :: "jsval \<Rightarrow> hint \<Rightarrow> exn + jsval"
  inheritedGet :: "jsval \<Rightarrow> string \<Rightarrow> exn + jsval"
  callForeign :: "jsval \<Rightarrow> jsval \<Rightarrow> jsval list \<Rightarrow> exn + jsval"
  arrayLike :: "jsval \<Rightarrow> (exn + jsval) list"
  ownDateMethods :: "jsval \<Rightarrow> bool \<Rightarrow> (exn + jsval) list \<Rightarrow> exn + string"
  ownMethods :: "string \<Rightarrow> jsval list \<Rightarrow> exn + jsval"
  dateParse :: "string \<Rightarrow> jsnum"
  dateToString :: "jsnum \<Rightarrow> string"
  dateToJSON :: "jsnum \<Rightarrow> jsval"
  getFullYear :: "jsnum \<Rightarrow> jsnum"
  getMonth :: "jsnum \<Rightarrow> jsnum"
  getDate :: "jsnum \<Rightarrow> jsnum"
  getHours :: "jsnum \<Rightarrow> jsnum"
  getMinutes :: "jsnum \<Rightarrow> jsnum"
  getSeconds :: "jsnum \<Rightarrow> jsnum"
  getMilliseconds :: "jsnum \<Rightarrow> jsnum"
  getTimezoneOffset :: "jsnum \<Rightarrow> jsnum"
  setMilliseconds :: "jsnum \<Rightarrow> jsnum \<Rightarrow> jsnum"
  momentOf :: "jsval \<Rightarrow> 'm"
  momentClone :: "'m \<Rightarrow> 'm"
  momentNow :: "'m"
  momentSubtractDay :: "'m \<Rightarrow> 'm"
  momentIsSameDay :: "'m \<Rightarrow> 'm \<Rightarrow> bool"
  momentFormat :: "'m \<Rightarrow> jsval \<Rightarrow> string"

text \<open>
  \<open>jsonStringify\<close> is \<open>JSON.stringify\<close>, which gives a text or \<open>undefined\<close>, and
  \<open>customJson\<close> what the round trip through \<open>JSON\<close> leaves of a value the model does not
  serialise itself. \<open>foreignPrimitive\<close> is \<open>ToPrimitive\<close> on a foreign object or function.
  \<open>inheritedGet v k\<close> is \<open>v[k]\<close> when \<open>k\<close> is not among the own properties the model
  holds for \<open>v\<close>: a member that \<open>v\<close> inherits, or any member of a foreign value.
  \<open>callForeign f this args\<close> is the call of the foreign function \<open>f\<close>. \<open>arrayLike v\<close>
  is the sequence \<open>v[0], v[1], ...\<close> that a loop over \<open>v.length\<close> reads, step by step,
  from a value that is neither a string nor an array but has a \<open>length\<close>; a step that
  throws ends it. Where the code calls a method of an object it was given (a \<open>Date\<close>
  method in \<open>formatDate\<close>, \<open>isSame\<close> in \<open>formatMomentDate\<close>, \<open>split\<close> and
  \<open>startsWith\<close> in the pipeline) and that object is foreign or holds a function, the
  outcome of that stretch of code is \<open>ownDateMethods\<close> or \<open>ownMethods\<close>, the latter with
  the name of the place and the values at hand. A foreign function that the code calls is
  taken to change nothing.
\<close>

subsection \<open>Arithmetic\<close>

text \<open>
  A double holds every integer up to \<open>2^53\<close> in magnitude, so a sum, a difference, a product
  or a remainder whose operands and result are such integers is the mathematical one. That
  covers the arithmetic on the fields of a date. Everything else is the engine's rounding
  arithmetic.
\<close>

definition safeInt :: "rat \<Rightarrow> bool" where
  "safeInt r = (isInteger r \<and> \<bar>r\<bar> \<le> 2 ^ 53)"

definition truncRat :: "rat \<Rightarrow> int" where
  "truncRat r = (if r < 0 then - \<lfloor>- r\<rfloor> else \<lfloor>r\<rfloor>)"

definition jsMul :: "('m, 'w) host \<Rightarrow> jsnum \<Rightarrow> jsnum \<Rightarrow> jsnum" where
  "jsMul h a b =
     (case (a, b) of
        (Fin x, Fin y) \<Rightarrow>
          if safeInt x \<and> safeInt y \<and> safeInt (x * y) then Fin (x * y) else numMul h a b
      | _ \<Rightarrow> numMul h a b)"

definition jsAdd :: "('m, 'w) host \<Rightarrow> jsnum \<Rightarrow> jsnum \<Rightarrow> jsnum" where
  "jsAdd h a b =
     (case (a, b) of
        (Fin x, Fin y) \<Rightarrow>
          if safeInt x \<and> safeInt y \<and> safeInt (x + y) then Fin (x + y) else numAdd h a b
      | _ \<Rightarrow> numAdd h a b)"

definition jsSub :: "('m, 'w) host \<Rightarrow> jsnum \<Rightarrow> jsnum \<Rightarrow> jsnum" where
  "jsSub h a b =
     (case (a, b) of
        (Fin x, Fin y) \<Rightarrow>
          if safeInt x \<and> safeInt y \<and> safeInt (x - y) then Fin (x - y) else numSub h a b
      | _ \<Rightarrow> numSub h a b)"

text \<open>\<open>x % y\<close> takes the sign of \<open>x\<close>.\<close>

definition jsRem :: "('m, 'w) host \<Rightarrow> jsnum \<Rightarrow> jsnum \<Rightarrow> jsnum" where
  "jsRem h a b =
     (case (a, b) of
        (Fin x, Fin y) \<Rightarrow>
          if safeInt x \<and> safeInt y \<and> y \<noteq> 0 then Fin (x - y * of_int (truncRat (x / y)))
          else numRem h a b
      | _ \<Rightarrow> numRem h a b)"

subsection \<open>Conversions\<close>

text \<open>\<open>Number::toString\<close>. An integer up to \<open>2^53\<close> in magnitude prints as its decimal
  digits; a fraction or a larger number prints the shortest digits that read back as the same
  double, which is the engine's business.\<close>

definition numToString :: "('m, 'w) host \<Rightarrow> jsnum \<Rightarrow> string" where
  "numToString h n =
     (case n of
        NaN \<Rightarrow> ''NaN''
      | PInf \<Rightarrow> ''Infinity''
      | NInf \<Rightarrow> ''-Infinity''
      | Fin r \<Rightarrow> if safeInt r then intToRadix 10 \<lfloor>r\<rfloor> else numberToString h n)"

fun joinWith :: "string \<Rightarrow> string list \<Rightarrow> string" where
  "joinWith sep [] = []"
| "joinWith sep [x] = x"
| "joinWith sep (x # y # r) = x @ sep @ joinWith sep (y # r)"

text \<open>
  \<open>ToPrimitive\<close> on a plain object tries \<open>toString\<close> and \<open>valueOf\<close>, in the order the
  hint gives. A method found among the own properties is called when it is a function and
  passed over when it is not; \<open>toString\<close> of \<open>Object.prototype\<close> gives
  \<open>[object Object]\<close>, and \<open>valueOf\<close> of \<open>Object.prototype\<close> gives the object itself,
  which is no primitive. When neither gives a primitive, a \<open>TypeError\<close> is thrown.
\<close>

definition tryMethod ::
  "('m, 'w) host \<Rightarrow> jsval \<Rightarrow> (string \<times> jsval) list \<Rightarrow> string \<Rightarrow> exn + jsval option" where
  "tryMethod h obj kvs name =
     (case map_of kvs name of
        Some m \<Rightarrow>
          if isCallable m then
            (case callForeign h m obj [] of
               Inl e \<Rightarrow> Inl e
             | Inr r \<Rightarrow> Inr (if isObject r then None else Some r))
          else Inr None
      | None \<Rightarrow> Inr (if name = ''toString'' then Some (JStr ''[object Object]'') else None))"

definition objectToPrimitive ::
  "('m, 'w) host \<Rightarrow> hint \<Rightarrow> jsval \<Rightarrow> (string \<times> jsval) list \<Rightarrow> exn + jsval" where
  "objectToPrimitive h hnt obj kvs =
     (case tryMethod h obj kvs (if hnt = HintString then ''toString'' else ''valueOf'') of
        Inl e \<Rightarrow> Inl e
      | Inr (Some p) \<Rightarrow> Inr p
      | Inr None \<Rightarrow>
          (case tryMethod h obj kvs (if hnt = HintString then ''valueOf'' else ''toString'') of
             Inl e \<Rightarrow> Inl e
           | Inr (Some p) \<Rightarrow> Inr p
           | Inr None \<Rightarrow> Inl TypeError))"

text \<open>\<open>ToString\<close> and \<open>ToNumber\<close> of a primitive; a symbol has neither.\<close>

definition primToStr :: "('m, 'w) host \<Rightarrow> jsval \<Rightarrow> exn + string" where
  "primToStr h p =
     (case p of
        Undefined \<Rightarrow> Inr ''undefined''
      | Null \<Rightarrow> Inr ''null''
      | JBool b \<Rightarrow> Inr (if b then ''true'' else ''false'')
      | JNum n \<Rightarrow> Inr (numToString h n)
      | JStr s \<Rightarrow> Inr s
      | _ \<Rightarrow> Inl TypeError)"

definition primToNumber :: "('m, 'w) host \<Rightarrow> jsval \<Rightarrow> exn + jsnum" where
  "primToNumber h p =
     (case p of
        Undefined \<Rightarrow> Inr NaN
      | Null \<Rightarrow> Inr (Fin 0)
      | JBool b \<Rightarrow> Inr (if b then Fin 1 else Fin 0)
      | JNum n \<Rightarrow> Inr n
      | JStr s \<Rightarrow> Inr (stringToNumber h s)
      | _ \<Rightarrow> Inl TypeError)"

text \<open>\<open>ToPrimitive\<close>. An array has the \<open>valueOf\<close> of \<open>Object.prototype\<close> and a
  \<open>toString\<close> that joins its elements with commas, \<open>null\<close> and \<open>undefined\<close> elements
  printing as nothing; a date gives its time value to the hint \<open>number\<close> and its text
  otherwise.\<close>

fun toStr :: "('m, 'w) host \<Rightarrow> jsval \<Rightarrow> exn + string"
  and toStrElems :: "('m, 'w) host \<Rightarrow> jsval list \<Rightarrow> exn + string list" where
  "toStr h Undefined = Inr ''undefined''"
| "toStr h Null = Inr ''null''"
| "toStr h (JBool b) = Inr (if b then ''true'' else ''false'')"
| "toStr h (JNum n) = Inr (numToString h n)"
| "toStr h (JStr s) = Inr s"
| "toStr h (JArr xs) =
     (case toStrElems h xs of Inl e \<Rightarrow> Inl e | Inr ss \<Rightarrow> Inr (joinWith '','' ss))"
| "toStr h (JObj kvs) =
     (case objectToPrimitive h HintString (JObj kvs) kvs of
        Inl e \<Rightarrow> Inl e
      | Inr p \<Rightarrow> primToStr h p)"
| "toStr h (JDate t) = Inr (dateToString h t)"
| "toStr h (JForeign k n) =
     (if k = FSymbol then Inl TypeError
      else (case foreignPrimitive h (JForeign k n) HintString of
              Inl e \<Rightarrow> Inl e
            | Inr p \<Rightarrow> primToStr h p))"
| "toStrElems h [] = Inr []"
| "toStrElems h (x # xs) =
     (case (if x = Undefined \<or> x = Null then Inr [] else toStr h x) of
        Inl e \<Rightarrow> Inl e
      | Inr s \<Rightarrow>
          (case toStrElems h xs of Inl e \<Rightarrow> Inl e | Inr ss \<Rightarrow> Inr (s # ss)))"

definition toPrimitive :: "('m, 'w) host \<Rightarrow> hint \<Rightarrow> jsval \<Rightarrow> exn + jsval" where
  "toPrimitive h hnt v =
     (case v of
        JArr xs \<Rightarrow> (case toStr h v of Inl e \<Rightarrow> Inl e | Inr s \<Rightarrow> Inr (JStr s))
      | JObj kvs \<Rightarrow> objectToPrimitive h hnt v kvs
      | JDate t \<Rightarrow> Inr (if hnt = HintNumber then JNum t else JStr (dateToString h t))
      | JForeign k n \<Rightarrow> if k = FSymbol then Inr v else foreignPrimitive h v hnt
      | _ \<Rightarrow> Inr v)"

text \<open>\<open>ToNumber\<close>, as the arithmetic and relational operators apply it to an operand.\<close>

definition toNumber :: "('m, 'w) host \<Rightarrow> jsval \<Rightarrow> exn + jsnum" where
  "toNumber h v =
     (case toPrimitive h HintNumber v of Inl e \<Rightarrow> Inl e | Inr p \<Rightarrow> primToNumber h p)"

text \<open>\<open>parseFloat\<close> converts its argument to a string and reads the longest decimal prefix.
  A number prints and reads back as itself; \<open>undefined\<close>, \<open>null\<close> and a boolean print as
  text that starts with no digit.\<close>

definition parseFloat :: "('m, 'w) host \<Rightarrow> jsval \<Rightarrow> exn + jsnum" where
  "parseFloat h v =
     (case v of
        Undefined \<Rightarrow> Inr NaN
      | Null \<Rightarrow> Inr NaN
      | JBool b \<Rightarrow> Inr NaN
      | JNum n \<Rightarrow> Inr n
      | JStr s \<Rightarrow> Inr (parseFloatStr h s)
      | _ \<Rightarrow> (case toStr h v of Inl e \<Rightarrow> Inl e | Inr s \<Rightarrow> Inr (parseFloatStr h s)))"

text \<open>\<open>parseInt(x, 10)\<close> likewise reads the digits in front. An integer below \<open>10^21\<close> in
  magnitude prints as digits only, which read back as the same number; any other number
  prints with a point or an exponent, and what is read in front of it is left to the engine.\<close>

definition parseInt10 :: "('m, 'w) host \<Rightarrow> jsval \<Rightarrow> exn + jsnum" where
  "parseInt10 h v =
     (case v of
        Undefined \<Rightarrow> Inr NaN
      | Null \<Rightarrow> Inr NaN
      | JBool b \<Rightarrow> Inr NaN
      | JNum n \<Rightarrow>
          Inr (case n of
                 Fin r \<Rightarrow> if isInteger r \<and> \<bar>r\<bar> < 10 ^ 21 then Fin r else parseIntStr h (numToString h n)
               | _ \<Rightarrow> NaN)
      | JStr s \<Rightarrow> Inr (parseIntStr h s)
      | _ \<Rightarrow> (case toStr h v of Inl e \<Rightarrow> Inl e | Inr s \<Rightarrow> Inr (parseIntStr h s)))"

text \<open>\<open>ToIntegerOrInfinity\<close>: truncation towards zero, \<open>NaN\<close> to \<open>0\<close>.\<close>

definition toIntegerOrInfinity :: "jsnum \<Rightarrow> jsnum" where
  "toIntegerOrInfinity n =
     (case n of NaN \<Rightarrow> Fin 0 | Fin r \<Rightarrow> Fin (of_int (truncRat r)) | PInf \<Rightarrow> PInf | NInf \<Rightarrow> NInf)"

definition mathRound :: "jsnum \<Rightarrow> jsnum" where
  "mathRound n = (case n of Fin r \<Rightarrow> Fin (of_int \<lfloor>r + 1 / 2\<rfloor>) | _ \<Rightarrow> n)"

definition mathFloor :: "jsnum \<Rightarrow> jsnum" where
  "mathFloor n = (case n of Fin r \<Rightarrow> Fin (of_int \<lfloor>r\<rfloor>) | _ \<Rightarrow> n)"

definition mathCeil :: "jsnum \<Rightarrow> jsnum" where
  "mathCeil n = (case n of Fin r \<Rightarrow> Fin (of_int \<lceil>r\<rceil>) | _ \<Rightarrow> n)"

text \<open>\<open>Number.prototype.toString(16)\<close> of a rounded number.\<close>

definition toHex :: "('m, 'w) host \<Rightarrow> jsnum \<Rightarrow> string" where
  "toHex h n = (case n of Fin r \<Rightarrow> intToRadix 16 \<lfloor>r\<rfloor> | _ \<Rightarrow> numToString h n)"

text \<open>
  \<open>Number.prototype.toFixed\<close>. The digit count is truncated to an integer and must lie in
  \<open>0..100\<close>, else a \<open>RangeError\<close> is thrown. The digits are those of the integer \<open>n\<close> that
  makes \<open>n / 10^f\<close> closest to the number, the larger one on a tie, with a point before the
  last \<open>f\<close> of them and zeros in front as needed.
\<close>

definition padZeros :: "nat \<Rightarrow> string \<Rightarrow> string" where
  "padZeros w s = replicate (w - length s) CHR ''0'' @ s"

definition fixedDigits :: "rat \<Rightarrow> nat \<Rightarrow> string" where
  "fixedDigits x f =
     (let ds = padZeros (f + 1) (natToRadix 10 (nat \<lfloor>x * 10 ^ f + 1 / 2\<rfloor>))
      in if f = 0 then ds
         else take (length ds - f) ds @ ''.'' @ drop (length ds - f) ds)"

definition toFixed :: "('m, 'w) host \<Rightarrow> jsnum \<Rightarrow> jsval \<Rightarrow> exn + string" where
  "toFixed h x fractionDigits =
     (case toNumber h fractionDigits of
        Inl e \<Rightarrow> Inl e
      | Inr d \<Rightarrow>
          (case toIntegerOrInfinity d of
             Fin f \<Rightarrow>
               if f < 0 \<or> 100 < f then Inl RangeError
               else (case x of
                       Fin r \<Rightarrow>
                         if 10 ^ 21 \<le> \<bar>r\<bar> then Inr (numToString h x)
                         else if r < 0 then Inr (CHR ''-'' # fixedDigits (- r) (nat \<lfloor>f\<rfloor>))
                         else Inr (fixedDigits r (nat \<lfloor>f\<rfloor>))
                     | _ \<Rightarrow> Inr (numToString h x))
           | _ \<Rightarrow> Inl RangeError))"

section \<open>Members and methods\<close>

text \<open>The functions every object inherits from \<open>Object.prototype\<close>.\<close>

definition objectPrototypeMethods :: "string list" where
  "objectPrototypeMethods =
     [''constructor'', ''hasOwnProperty'', ''isPrototypeOf'', ''propertyIsEnumerable'',
      ''toLocaleString'', ''toString'', ''valueOf'', ''__defineGetter__'', ''__defineSetter__'',
      ''__lookupGetter__'', ''__lookupSetter__'']"

text \<open>
  \<open>v[k]\<close>. Reading a member of \<open>undefined\<close> or \<open>null\<close> throws. A plain object has its
  own properties and, behind them, the members of \<open>Object.prototype\<close>: its functions, and
  under \<open>__proto__\<close> the prototype itself. An array and a string have their length and
  their elements. Everything else a value inherits, and every member of a foreign value, is
  the host's.
\<close>

definition getProp :: "('m, 'w) host \<Rightarrow> jsval \<Rightarrow> string \<Rightarrow> exn + jsval" where
  "getProp h v k =
     (case v of
        Undefined \<Rightarrow> Inl TypeError
      | Null \<Rightarrow> Inl TypeError
      | JObj kvs \<Rightarrow>
          (case map_of kvs k of
             Some x \<Rightarrow> Inr x
           | None \<Rightarrow>
               if k = ''__proto__'' then Inr (JForeign FObject ''Object.prototype'')
               else if k = ''constructor'' then Inr (JForeign FFunction ''Object'')
               else if k \<in> set objectPrototypeMethods
               then Inr (JForeign FFunction (''Object.prototype.'' @ k))
               else Inr Undefined)
      | JArr xs \<Rightarrow>
          if k = ''length'' then Inr (JNum (Fin (of_nat (length xs))))
          else (case find (\<lambda>i. natToRadix 10 i = k) [0..<length xs] of
                  Some i \<Rightarrow> Inr (xs ! i)
                | None \<Rightarrow> inheritedGet h v k)
      | JStr s \<Rightarrow>
          if k = ''length'' then Inr (JNum (Fin (of_nat (length s))))
          else (case find (\<lambda>i. natToRadix 10 i = k) [0..<length s] of
                  Some i \<Rightarrow> Inr (JStr [s ! i])
                | None \<Rightarrow> inheritedGet h v k)
      | _ \<Rightarrow> inheritedGet h v k)"

text \<open>\<open>recv.name(args)\<close>: a member that is no function cannot be called.\<close>

definition callMethod :: "('m, 'w) host \<Rightarrow> jsval \<Rightarrow> string \<Rightarrow> jsval list \<Rightarrow> exn + jsval" where
  "callMethod h recv name args =
     (case getProp h recv name of
        Inl e \<Rightarrow> Inl e
      | Inr m \<Rightarrow> if isCallable m then callForeign h m recv args else Inl TypeError)"

text \<open>Whether an object brings methods of its own: a foreign value, or a plain object that
  holds a function. The formatters call the \<open>Date\<close> and \<open>moment\<close> methods of the object
  they are given; on such an object the outcome is the host's.\<close>

definition hasMethods :: "jsval \<Rightarrow> bool" where
  "hasMethods v =
     (case v of
        JForeign k n \<Rightarrow> True
      | JObj kvs \<Rightarrow> list_ex (\<lambda>kv. isCallable (snd kv)) kvs
      | _ \<Rightarrow> False)"

text \<open>\<open>a + b\<close>: both operands are made primitive; when one of them is a string the texts
  are joined, otherwise the numbers are added.\<close>

definition jsPlusVal :: "('m, 'w) host \<Rightarrow> jsval \<Rightarrow> jsval \<Rightarrow> exn + jsval" where
  "jsPlusVal h a b =
     (case toPrimitive h HintDefault a of
        Inl e \<Rightarrow> Inl e
      | Inr pa \<Rightarrow>
          (case toPrimitive h HintDefault b of
             Inl e \<Rightarrow> Inl e
           | Inr pb \<Rightarrow>
               if typeof pa = ''string'' \<or> typeof pb = ''string'' then
                 (case primToStr h pa of
                    Inl e \<Rightarrow> Inl e
                  | Inr sa \<Rightarrow>
                      (case primToStr h pb of Inl e \<Rightarrow> Inl e | Inr sb \<Rightarrow> Inr (JStr (sa @ sb))))
               else
                 (case primToNumber h pa of
                    Inl e \<Rightarrow> Inl e
                  | Inr na \<Rightarrow>
                      (case primToNumber h pb of
                         Inl e \<Rightarrow> Inl e
                       | Inr nb \<Rightarrow> Inr (JNum (jsAdd h na nb))))))"

text \<open>\<open>s += v\<close> for a string \<open>s\<close>.\<close>

definition appendVal :: "('m, 'w) host \<Rightarrow> string \<Rightarrow> jsval \<Rightarrow> exn + string" where
  "appendVal h s v =
     (case toPrimitive h HintDefault v of
        Inl e \<Rightarrow> Inl e
      | Inr p \<Rightarrow> (case primToStr h p of Inl e \<Rightarrow> Inl e | Inr t \<Rightarrow> Inr (s @ t)))"

section \<open>ValueFormatter: \<open>formatValue\<close>\<close>

text \<open>
  \<open>replace(/\B(?=(\d{3})+(?!\d))/g, sep)\<close>: \<open>sep\<close> is put at every position that is not a
  word boundary and from which the run of digits has a length that is a positive multiple of
  three. \<open>prevWord\<close> says whether the character before the position is a word character.
\<close>

fun insertGroups :: "string \<Rightarrow> bool \<Rightarrow> string \<Rightarrow> string" where
  "insertGroups sep prevWord [] = []"
| "insertGroups sep prevWord (c # cs) =
     (let run = length (takeWhile isDigit (c # cs))
      in (if prevWord = isWordChar c \<and> 0 < run \<and> run mod 3 = 0 then sep else [])
         @ c # insertGroups sep (isWordChar c) cs)"

text \<open>
  \<open>static formatValue(value, decimals, _format)\<close>. The third argument is the separator pair, a
  string when given (\<open>None\<close> is \<open>undefined\<close> or \<open>null\<close>). When \<open>decimals\<close> is not a number
  the code first sets \<open>decimals = 2\<close> and then \<open>_format = decimals\<close>, so the pair becomes
  the number \<open>2\<close>, which has no characters. \<open>pairChar f i\<close> is \<open>format[i]\<close> as the two
  calls of \<open>replace\<close> print it: a character of the pair, or \<open>undefined\<close>.
\<close>

definition pairChar :: "string option \<Rightarrow> nat \<Rightarrow> string" where
  "pairChar f i =
     (case f of
        Some s \<Rightarrow> if i < length s then [s ! i] else ''undefined''
      | None \<Rightarrow> ''undefined'')"

definition formatValue :: "('m, 'w) host \<Rightarrow> jsval \<Rightarrow> jsval \<Rightarrow> string option \<Rightarrow> exn + string" where
  "formatValue h value decimals format0 =
     (let decimals1 = (if typeof decimals \<noteq> ''number'' then JNum (Fin 2) else decimals);
          format = (if typeof decimals \<noteq> ''number'' then None
                    else Some (case format0 of None \<Rightarrow> ''.,'' | Some f \<Rightarrow> f))
      in case (case value of JNum n \<Rightarrow> Inr n | _ \<Rightarrow> parseFloat h value) of
           Inl e \<Rightarrow> Inl e
         | Inr value1 \<Rightarrow>
             if isNaN value1 then Inr []
             else (case toFixed h value1 (if toBoolean decimals1 then decimals1 else JNum (Fin 0)) of
                     Inl e \<Rightarrow> Inl e
                   | Inr s \<Rightarrow>
                       Inr (insertGroups (pairChar format 0) False
                              (replaceFirst s (pairChar format 0) (pairChar format 1)))))"


section \<open>DateFormatter\<close>

subsection \<open>Characters\<close>

text \<open>
  A character of the model is one of 256 code units. The Cyrillic letters of the date
  tokens are given their ISO 8859-5 codes, so that each is one character, as it is one
  UTF-16 code unit in the code.
\<close>

definition cyrGhe :: char where "cyrGhe = CHR 0xB3"
definition cyrDe :: char where "cyrDe = CHR 0xB4"
definition cyrEmCap :: char where "cyrEmCap = CHR 0xBC"
definition cyrEm :: char where "cyrEm = CHR 0xDC"
definition cyrEs :: char where "cyrEs = CHR 0xE1"
definition cyrChe :: char where "cyrChe = CHR 0xE7"

definition toLowerChar :: "char \<Rightarrow> char" where
  "toLowerChar c =
     (let n = (of_char c :: nat) in if 65 \<le> n \<and> n \<le> 90 then char_of (n + 32) else c)"

definition toLowerCase :: "string \<Rightarrow> string" where
  "toLowerCase s = map toLowerChar s"

subsection \<open>\<open>Date\<close> objects\<close>

text \<open>A \<open>Date\<close> is its time value: milliseconds since the epoch, or \<open>NaN\<close> when invalid.
  \<open>new Date(x)\<close> copies a date; any other value is made primitive, a string is then read
  with the engine's parser and anything else is taken as a number and clipped.\<close>

definition timeClip :: "jsnum \<Rightarrow> jsnum" where
  "timeClip n =
     (case n of
        Fin r \<Rightarrow> if 8640000000000000 < \<bar>r\<bar> then NaN else Fin (of_int (truncRat r))
      | _ \<Rightarrow> NaN)"

definition newDate :: "('m, 'w) host \<Rightarrow> jsval \<Rightarrow> exn + jsval" where
  "newDate h v =
     (case v of
        JDate t \<Rightarrow> Inr (JDate t)
      | _ \<Rightarrow>
          (case toPrimitive h HintDefault v of
             Inl e \<Rightarrow> Inl e
           | Inr p \<Rightarrow>
               (case p of
                  JStr s \<Rightarrow> Inr (JDate (dateParse h s))
                | _ \<Rightarrow>
                    (case primToNumber h p of
                       Inl e \<Rightarrow> Inl e
                     | Inr n \<Rightarrow> Inr (JDate (timeClip n))))))"

text \<open>Calling a \<open>Date\<close> method on a value that has none throws a \<open>TypeError\<close>; an
  object that brings methods of its own does not get here, see \<open>renderDate\<close>.\<close>

definition dateField :: "(jsnum \<Rightarrow> jsnum) \<Rightarrow> jsval \<Rightarrow> exn + jsnum" where
  "dateField getter dateObj = (case dateObj of JDate t \<Rightarrow> Inr (getter t) | _ \<Rightarrow> Inl TypeError)"

text \<open>\<open>`0${v}`\<close> when the field is below ten and the token has two letters.\<close>

definition pad2 :: "('m, 'w) host \<Rightarrow> string \<Rightarrow> jsnum \<Rightarrow> string" where
  "pad2 h ss v =
     (if numLess v (Fin 10) \<and> length ss = 2 then CHR ''0'' # numToString h v
      else numToString h v)"

text \<open>\<open>static _put(ss, dateObj, result)\<close>: appends the field that the token \<open>ss\<close> names to
  \<open>result\<close>; an unknown token, the empty one included, appends nothing.\<close>

definition put :: "('m, 'w) host \<Rightarrow> string \<Rightarrow> jsval \<Rightarrow> string \<Rightarrow> exn + string" where
  "put h ss dateObj result =
     (if ss \<in> set [''YYYY'', ''JJJJ'', [cyrGhe, cyrGhe, cyrGhe, cyrGhe],
                    ''YY'', ''JJ'', [cyrGhe, cyrGhe]] then
        (case dateField (getFullYear h) dateObj of
           Inl e \<Rightarrow> Inl e
         | Inr v \<Rightarrow>
             Inr (result @ numToString h (if length ss = 2 then jsRem h v (Fin 100) else v)))
      else if ss \<in> set [''MM'', ''M'', [cyrEmCap, cyrEmCap], [cyrEmCap]] then
        (case dateField (getMonth h) dateObj of
           Inl e \<Rightarrow> Inl e
         | Inr v \<Rightarrow> Inr (result @ pad2 h ss (jsAdd h v (Fin 1))))
      else if ss \<in> set [''DD'', ''TT'', ''D'', ''T'', [cyrDe, cyrDe], [cyrDe]] then
        (case dateField (getDate h) dateObj of
           Inl e \<Rightarrow> Inl e
         | Inr v \<Rightarrow> Inr (result @ pad2 h ss v))
      else if ss \<in> set [''hh'', ''SS'', ''h'', ''S'', [cyrChe, cyrChe], [cyrChe]] then
        (case dateField (getHours h) dateObj of
           Inl e \<Rightarrow> Inl e
         | Inr v \<Rightarrow> Inr (result @ pad2 h ss v))
      else if ss \<in> set [''mm'', ''m'', [cyrEm, cyrEm], [cyrEm]] then
        (case dateField (getMinutes h) dateObj of
           Inl e \<Rightarrow> Inl e
         | Inr v \<Rightarrow> Inr (result @ pad2 h ss v))
      else if ss \<in> set [''ss'', ''s'', ''cc'', ''c''] then
        (case dateField (getSeconds h) dateObj of
           Inl e \<Rightarrow> Inl e
         | Inr v \<Rightarrow> Inr (result @ pad2 h ss v))
      else if ss \<in> set [''sss'', [cyrEs, cyrEs, cyrEs]] then
        (case dateField (getMilliseconds h) dateObj of
           Inl e \<Rightarrow> Inl e
         | Inr v \<Rightarrow>
             Inr (result @
                  (if numLess v (Fin 10) then ''00'' @ numToString h v
                   else if numLess v (Fin 100) then CHR ''0'' # numToString h v
                   else numToString h v)))
      else Inr result)"

definition validFormatChars :: string where
  "validFormatChars =
     [CHR ''Y'', CHR ''J'', cyrGhe, CHR ''M'', cyrEmCap, CHR ''D'', CHR ''T'', cyrDe,
      CHR ''h'', CHR ''S'', cyrChe, CHR ''m'', cyrEm, CHR ''s'', cyrEs]"


subsection \<open>The engine's options\<close>

text \<open>The fields of \<open>this.vis\<close> that the formatter reads. \<open>translate\<close> is the translation
  function \<open>_\<close>, \<open>visInstance\<close> the field \<open>instance\<close>.\<close>

record vis =
  user :: jsval
  loginRequired :: jsval
  visInstance :: jsval
  language :: jsval
  dateFormat :: jsval
  translate :: "string \<Rightarrow> string"
  editMode :: bool
  states :: "string \<Rightarrow> jsval"

text \<open>\<open>a || b\<close>.\<close>

definition orElse :: "jsval \<Rightarrow> jsval \<Rightarrow> jsval" where
  "orElse a b = (if toBoolean a then a else b)"

text \<open>\<open>j === dateObj\<close> for a number \<open>j\<close>: the other side is the same number, and not \<open>NaN\<close>.\<close>

definition strictEqNum :: "jsnum \<Rightarrow> jsval \<Rightarrow> bool" where
  "strictEqNum j v = (case v of JNum n \<Rightarrow> j \<noteq> NaN \<and> j = n | _ \<Rightarrow> False)"

subsection \<open>The custom tokenizer: \<open>formatDate\<close>\<close>

text \<open>What the loop of \<open>formatDate\<close> reads from the pattern: \<open>format[i]\<close> for
  \<open>i < format.length\<close>. A string gives its characters and an array its elements; a
  number, a boolean, a date and a plain object without a \<open>length\<close> of its own give
  nothing, so the loop does not run.\<close>

definition formatItems :: "('m, 'w) host \<Rightarrow> jsval \<Rightarrow> (exn + jsval) list" where
  "formatItems h format =
     (case format of
        JStr s \<Rightarrow> map (\<lambda>c. Inr (JStr [c])) s
      | JArr xs \<Rightarrow> map Inr xs
      | JObj kvs \<Rightarrow> if map_of kvs ''length'' = None then [] else arrayLike h format
      | JForeign k n \<Rightarrow> arrayLike h format
      | _ \<Rightarrow> [])"

text \<open>The loop of \<open>formatDate\<close> over the pattern: \<open>s\<close> is the token being collected.
  \<open>includes\<close> takes the element as text, and \<open>+=\<close> appends it.\<close>

fun formatLoop ::
  "('m, 'w) host \<Rightarrow> jsval \<Rightarrow> (exn + jsval) list \<Rightarrow> string \<Rightarrow> string \<Rightarrow> exn + string" where
  "formatLoop h dateObj [] s result = put h s dateObj result"
| "formatLoop h dateObj (x # xs) s result =
     (case x of
        Inl e \<Rightarrow> Inl e
      | Inr c \<Rightarrow>
          (case toStr h c of
             Inl e \<Rightarrow> Inl e
           | Inr t \<Rightarrow>
               if includesStr validFormatChars t then
                 (case appendVal h s c of
                    Inl e \<Rightarrow> Inl e
                  | Inr s1 \<Rightarrow> formatLoop h dateObj xs s1 result)
               else
                 (case put h s dateObj result of
                    Inl e \<Rightarrow> Inl e
                  | Inr r \<Rightarrow>
                      (case appendVal h r c of
                         Inl e \<Rightarrow> Inl e
                       | Inr r1 \<Rightarrow> formatLoop h dateObj xs [] r1))))"

text \<open>What \<open>formatDate\<close> does to its first argument before it reads the pattern: the
  date it will take the fields from, and whether the value counts as a duration.\<close>

definition dateOfValue :: "('m, 'w) host \<Rightarrow> jsval \<Rightarrow> bool \<Rightarrow> exn + bool \<times> jsval" where
  "dateOfValue h dateObj isDuration =
     (let type = typeof dateObj
      in if type = ''string'' then map_sum id (Pair isDuration) (newDate h dateObj)
         else if type \<noteq> ''object'' then
           (case parseInt10 h dateObj of
              Inl e \<Rightarrow> Inl e
            | Inr j \<Rightarrow>
                if strictEqNum j dateObj then
                  (if numLess j (Fin 946681200) then map_sum id (Pair True) (newDate h dateObj)
                   else map_sum id (Pair isDuration)
                          (if numLess j (Fin 946681200000) then newDate h (JNum (jsMul h j (Fin 1000)))
                           else newDate h (JNum j)))
                else map_sum id (Pair isDuration) (newDate h dateObj))
         else Inr (isDuration, dateObj))"

text \<open>\<open>dateObj.setMilliseconds(dateObj.getMilliseconds() + dateObj.getTimezoneOffset() * 60 * 1000)\<close>.\<close>

definition shiftByOffset :: "('m, 'w) host \<Rightarrow> jsval \<Rightarrow> exn + jsval" where
  "shiftByOffset h dateObj =
     (case dateObj of
        JDate t \<Rightarrow>
          Inr (JDate (setMilliseconds h t
                 (jsAdd h (getMilliseconds h t)
                    (jsMul h (jsMul h (getTimezoneOffset h t) (Fin 60)) (Fin 1000)))))
      | _ \<Rightarrow> Inl TypeError)"

text \<open>The first two statements of \<open>formatDate\<close>: the flag \<open>isDuration\<close> and the pattern
  \<open>_format\<close> after them. The text \<open>duration\<close> and \<open>true\<close> set the flag; any other value
  that is not a boolean is taken for the pattern, whatever the third argument was.\<close>

definition normalizeDuration :: "jsval \<Rightarrow> jsval \<Rightarrow> bool \<times> jsval" where
  "normalizeDuration isDuration0 format0 =
     (let isDuration1 =
            (if (case isDuration0 of JStr s \<Rightarrow> toLowerCase s = ''duration'' | _ \<Rightarrow> False)
                \<or> isDuration0 = JBool True
             then JBool True else isDuration0)
      in if typeof isDuration1 \<noteq> ''boolean'' then (False, isDuration1)
         else (isDuration1 = JBool True, format0))"

text \<open>\<open>_format || this.vis.dateFormat || 'DD.MM.YYYY'\<close>.\<close>

definition defaultPattern :: "vis \<Rightarrow> jsval \<Rightarrow> jsval" where
  "defaultPattern v format0 = orElse (orElse format0 (dateFormat v)) (JStr ''DD.MM.YYYY'')"

text \<open>The rest of \<open>formatDate\<close> once the date is there: the shift of a duration, then the
  loop over the pattern.\<close>

definition renderDate :: "('m, 'w) host \<Rightarrow> bool \<Rightarrow> jsval \<Rightarrow> jsval \<Rightarrow> exn + string" where
  "renderDate h isDuration dateObj format =
     (if hasMethods dateObj then ownDateMethods h dateObj isDuration (formatItems h format)
      else
        (case (if isDuration then shiftByOffset h dateObj else Inr dateObj) of
           Inl e \<Rightarrow> Inl e
         | Inr dateObj1 \<Rightarrow> formatLoop h dateObj1 (formatItems h format) [] []))"

text \<open>\<open>formatDate(dateObj, isDuration, _format)\<close>.\<close>

definition formatDate :: "('m, 'w) host \<Rightarrow> vis \<Rightarrow> jsval \<Rightarrow> jsval \<Rightarrow> jsval \<Rightarrow> exn + string" where
  "formatDate h v dateObj isDuration0 format0 =
     (let (isDuration1, format1) = normalizeDuration isDuration0 format0
      in if \<not> toBoolean dateObj then Inr []
         else
           (case dateOfValue h dateObj isDuration1 of
              Inl e \<Rightarrow> Inl e
            | Inr (isDuration, dateObj1) \<Rightarrow>
                renderDate h isDuration dateObj1 (defaultPattern v format1)))"

subsection \<open>The calendar library: \<open>formatMomentDate\<close>\<close>

text \<open>\<open>parseInt(dateObj, 10)\<close> runs on a value that is neither a string nor an object, and
  throws when that value has no text (a symbol, or a function whose conversion throws).\<close>

definition parseIntFailure :: "('m, 'w) host \<Rightarrow> jsval \<Rightarrow> exn option" where
  "parseIntFailure h dateObj =
     (if typeof dateObj = ''string'' \<or> typeof dateObj = ''object'' then None
      else (case parseInt10 h dateObj of Inl e \<Rightarrow> Some e | Inr j \<Rightarrow> None))"

text \<open>
  The date after the first lines of \<open>formatMomentDate\<close>: a \<open>moment\<close> object (\<open>Inl\<close>), or
  the argument itself when it was an object (\<open>Inr\<close>). A string is wrapped twice: the first
  \<open>moment(dateObj)\<close> leaves \<open>type\<close> as it was, so the second block runs on the wrapper,
  whose \<open>parseInt\<close> is a number and never \<open>===\<close> to it. When \<open>parseInt\<close> throws there
  is no date; the argument is handed back and \<open>formatMomentDate\<close> throws.
\<close>

definition momentOfValue :: "('m, 'w) host \<Rightarrow> jsval \<Rightarrow> 'm + jsval" where
  "momentOfValue h dateObj =
     (let type = typeof dateObj
      in if type = ''string'' then Inl (momentClone h (momentOf h dateObj))
         else if type \<noteq> ''object'' then
           (case parseInt10 h dateObj of
              Inl e \<Rightarrow> Inr dateObj
            | Inr j \<Rightarrow>
                if strictEqNum j dateObj then
                  (if numLess j (Fin 946681200) then Inl (momentOf h dateObj)
                   else if numLess j (Fin 946681200000) then Inl (momentOf h (JNum (jsMul h j (Fin 1000))))
                   else Inl (momentOf h (JNum j)))
                else Inl (momentOf h dateObj))
         else Inr dateObj)"

text \<open>\<open>moment(dateObj).format(pattern) || ''\<close>.\<close>

definition renderMoment :: "('m, 'w) host \<Rightarrow> 'm + jsval \<Rightarrow> jsval \<Rightarrow> jsval" where
  "renderMoment h d pattern =
     JStr (momentFormat h (case d of Inl m \<Rightarrow> momentClone h m | Inr x \<Rightarrow> momentOf h x) pattern)"

text \<open>\<open>recv.replace(pat, w)\<close> for two strings \<open>pat\<close> and \<open>w\<close>: a string replaces the first
  occurrence; any other value is asked for a method \<open>replace\<close>.\<close>

definition replaceCall :: "('m, 'w) host \<Rightarrow> jsval \<Rightarrow> string \<Rightarrow> string \<Rightarrow> exn + jsval" where
  "replaceCall h recv pat w =
     (case recv of
        JStr f \<Rightarrow> Inr (JStr (replaceFirst f pat w))
      | _ \<Rightarrow> callMethod h recv ''replace'' [JStr pat, JStr w])"

text \<open>\<open>format.replace('dddd', w).replace('ddd', w).replace('dd', w)\<close>.\<close>

definition replaceWeekday :: "('m, 'w) host \<Rightarrow> jsval \<Rightarrow> string \<Rightarrow> exn + jsval" where
  "replaceWeekday h format w =
     (case replaceCall h format ''dddd'' w of
        Inl e \<Rightarrow> Inl e
      | Inr f1 \<Rightarrow>
          (case replaceCall h f1 ''ddd'' w of
             Inl e \<Rightarrow> Inl e
           | Inr f2 \<Rightarrow> replaceCall h f2 ''dd'' w))"

text \<open>\<open>formatMomentDate(dateObj, _format, useTodayOrYesterday, moment)\<close>. The variable
  \<open>result\<close> is declared without a value, so it is \<open>undefined\<close> until a branch assigns it.
  An object handed in as \<open>dateObj\<close> is asked for \<open>isSame\<close>, which data does not have.\<close>

definition formatMomentDate :: "('m, 'w) host \<Rightarrow> vis \<Rightarrow> jsval \<Rightarrow> jsval \<Rightarrow> jsval \<Rightarrow> exn + jsval" where
  "formatMomentDate h v dateObj format0 useTodayOrYesterday0 =
     (let useTodayOrYesterday =
            (if typeof useTodayOrYesterday0 \<noteq> ''undefined'' then useTodayOrYesterday0 else JBool False)
      in if \<not> toBoolean dateObj then Inr (JStr [])
         else
           (case parseIntFailure h dateObj of
              Some e \<Rightarrow> Inl e
            | None \<Rightarrow>
                (let d = momentOfValue h dateObj;
                     format = defaultPattern v format0
                 in if toBoolean useTodayOrYesterday then
                      (case d of
                         Inr x \<Rightarrow>
                           if hasMethods x
                           then ownMethods h ''formatMomentDate''
                                  [x, format, JStr (translate v ''Today''), JStr (translate v ''Yesterday'')]
                           else Inl TypeError
                       | Inl m \<Rightarrow>
                           (case (if momentIsSameDay h m (momentNow h)
                                  then (case replaceWeekday h format (translate v ''Today'') of
                                          Inl e \<Rightarrow> Inl e
                                        | Inr f \<Rightarrow> Inr (renderMoment h d f))
                                  else Inr Undefined) of
                              Inl e \<Rightarrow> Inl e
                            | Inr result \<Rightarrow>
                                if momentIsSameDay h m (momentSubtractDay h (momentNow h))
                                then (case replaceWeekday h format (translate v ''Yesterday'') of
                                        Inl e \<Rightarrow> Inl e
                                      | Inr f \<Rightarrow> Inr (renderMoment h d f))
                                else Inr result))
                    else Inr (renderMoment h d format))))"


section \<open>Objects\<close>

definition isNullish :: "jsval \<Rightarrow> bool" where
  "isNullish v = (v = Undefined \<or> v = Null)"

text \<open>\<open>s.split(c)\<close> for a one-character separator.\<close>

fun splitOn :: "char \<Rightarrow> string \<Rightarrow> string \<Rightarrow> string list" where
  "splitOn c cur [] = [rev cur]"
| "splitOn c cur (x # xs) = (if x = c then rev cur # splitOn c [] xs else splitOn c (x # cur) xs)"

text \<open>\<open>static getObjPropValue(obj, propPath)\<close>. A path that is not a string has no
  \<open>split\<close>, unless it brings one.\<close>

fun walkPath :: "('m, 'w) host \<Rightarrow> jsval \<Rightarrow> string list \<Rightarrow> exn + jsval" where
  "walkPath h obj [] = Inr obj"
| "walkPath h obj (part # parts) =
     (case getProp h obj part of
        Inl e \<Rightarrow> Inl e
      | Inr obj1 \<Rightarrow> if \<not> toBoolean obj1 then Inr Undefined else walkPath h obj1 parts)"

definition getObjPropValue :: "('m, 'w) host \<Rightarrow> jsval \<Rightarrow> jsval \<Rightarrow> exn + jsval" where
  "getObjPropValue h obj propPath =
     (if \<not> toBoolean obj then Inr Undefined
      else (case propPath of
              JStr path \<Rightarrow> walkPath h obj (splitOn CHR ''.'' [] path)
            | _ \<Rightarrow> if hasMethods propPath then ownMethods h ''getObjPropValue'' [obj, propPath]
                   else Inl TypeError))"

subsection \<open>\<open>deepClone\<close>\<close>

text \<open>
  \<open>JSON.parse(JSON.stringify(object))\<close>, on the value itself. \<open>jsonValue\<close> is what is
  left of a value after the round trip, \<open>None\<close> when \<open>JSON.stringify\<close> leaves it out:
  a non-finite number becomes \<open>null\<close>, an \<open>undefined\<close> array element becomes \<open>null\<close>,
  an \<open>undefined\<close> property is dropped, and a date becomes what its \<open>toJSON\<close> gives.
  What is left of a foreign value, and of an object that holds a function \<open>toJSON\<close>, is the
  host's. \<open>JSON.stringify(undefined)\<close> is \<open>undefined\<close>, which \<open>JSON.parse\<close> rejects.
\<close>

fun jsonValue :: "('m, 'w) host \<Rightarrow> jsval \<Rightarrow> jsval option"
  and jsonElems :: "('m, 'w) host \<Rightarrow> jsval list \<Rightarrow> jsval list"
  and jsonProps :: "('m, 'w) host \<Rightarrow> (string \<times> jsval) list \<Rightarrow> (string \<times> jsval) list" where
  "jsonValue h Undefined = None"
| "jsonValue h Null = Some Null"
| "jsonValue h (JBool b) = Some (JBool b)"
| "jsonValue h (JNum n) = Some (case n of Fin r \<Rightarrow> JNum n | _ \<Rightarrow> Null)"
| "jsonValue h (JStr s) = Some (JStr s)"
| "jsonValue h (JArr xs) = Some (JArr (jsonElems h xs))"
| "jsonValue h (JObj kvs) =
     (if (case map_of kvs ''toJSON'' of Some m \<Rightarrow> isCallable m | None \<Rightarrow> False)
      then customJson h (JObj kvs)
      else Some (JObj (jsonProps h kvs)))"
| "jsonValue h (JDate t) = Some (dateToJSON h t)"
| "jsonValue h (JForeign k n) = customJson h (JForeign k n)"
| "jsonElems h [] = []"
| "jsonElems h (x # xs) =
     (case jsonValue h x of None \<Rightarrow> Null | Some y \<Rightarrow> y) # jsonElems h xs"
| "jsonProps h [] = []"
| "jsonProps h (kv # kvs) =
     (case jsonValue h (snd kv) of
        None \<Rightarrow> jsonProps h kvs
      | Some y \<Rightarrow> (fst kv, y) # jsonProps h kvs)"

definition deepClone :: "('m, 'w) host \<Rightarrow> jsval \<Rightarrow> exn + jsval" where
  "deepClone h object = (case jsonValue h object of None \<Rightarrow> Inl SyntaxError | Some y \<Rightarrow> Inr y)"

section \<open>BindingCache: \<open>extractBinding\<close>\<close>

text \<open>\<open>VisBindingOperation\<close> and \<open>VisBinding\<close> of \<open>types.d.ts\<close>. An absent \<open>arg\<close> is
  \<open>Undefined\<close>, an absent \<open>formula\<close> or \<open>operations\<close> is \<open>None\<close>; \<open>bindingFormat\<close> is the
  field \<open>format\<close>.\<close>

record operation =
  op :: string
  arg :: jsval
  formula :: "string option"

record VisBinding =
  visOid :: string
  systemOid :: string
  token :: string
  operations :: "operation list option"
  bindingFormat :: string
  isSeconds :: bool

text \<open>\<open>deepClone\<close> at the type \<open>VisBinding[]\<close>: the strings and the flag come back as
  they are, an \<open>arg\<close> comes back as \<open>jsonValue\<close> leaves it.\<close>

definition cloneOperation :: "('m, 'w) host \<Rightarrow> operation \<Rightarrow> operation" where
  "cloneOperation h x = x\<lparr>arg := (case jsonValue h (arg x) of None \<Rightarrow> Undefined | Some y \<Rightarrow> y)\<rparr>"

definition cloneBinding :: "('m, 'w) host \<Rightarrow> VisBinding \<Rightarrow> VisBinding" where
  "cloneBinding h b = b\<lparr>operations := map_option (map (cloneOperation h)) (operations b)\<rparr>"

definition deepCloneBindings :: "('m, 'w) host \<Rightarrow> VisBinding list \<Rightarrow> VisBinding list" where
  "deepCloneBindings h bs = map (cloneBinding h) bs"

text \<open>
  The state of one \<open>VisFormatUtils\<close> object and of what it writes to. Binding lists are
  mutable arrays, so they live in \<open>heap\<close>, each at its address, and a reference is an
  address: two references share a list exactly when they are the same address. A list
  owns its bindings (the parser and \<open>deepClone\<close> build fresh ones), so a cell holds the
  whole list. \<open>parserCalls\<close> records the templates handed to the parser of \<open>visUtils\<close>,
  \<open>console\<close> what the console's own methods have recorded, \<open>randomDraws\<close> how often
  \<open>Math.random\<close> was called, \<open>world\<close> the state of the page that scripts see and change.
\<close>

type_synonym addr = nat

record 'w engine =
  visOpts :: vis
  bindingsCache :: "string \<rightharpoonup> addr"
  heap :: "VisBinding list list"
  parserCalls :: "string list"
  console :: "logEntry list"
  randomDraws :: nat
  world :: 'w

text \<open>
  \<open>this.bindingsCache\<close> is created as \<open>{}\<close>, so reading \<open>this.bindingsCache[format]\<close>
  finds, besides the entries stored in it, what every object inherits from
  \<open>Object.prototype\<close>: its methods, and under \<open>__proto__\<close> the prototype itself.
\<close>

datatype slot = Missing | Own addr | ProtoMethod | ProtoObject

definition cacheGet :: "(string \<rightharpoonup> addr) \<Rightarrow> string \<Rightarrow> slot" where
  "cacheGet c k =
     (case c k of
        Some a \<Rightarrow> Own a
      | None \<Rightarrow>
          if k = ''__proto__'' then ProtoObject
          else if k \<in> set objectPrototypeMethods then ProtoMethod
          else Missing)"

text \<open>What \<open>this.extractBinding\<close> returns: \<open>null\<close>, a reference to a binding list, or
  (for the template \<open>__proto__\<close>) the empty object that \<open>deepClone\<close> makes of
  \<open>Object.prototype\<close>.\<close>

datatype parsed = PNull | PList addr | PObject

definition alloc :: "VisBinding list \<Rightarrow> 'w engine \<Rightarrow> addr \<times> 'w engine" where
  "alloc bs st = (length (heap st), st\<lparr>heap := heap st @ [bs]\<rparr>)"

text \<open>
  \<open>extractBinding(format)\<close>. \<open>parse\<close> is \<open>extractBinding\<close> of \<open>./visUtils\<close>, which gives
  a fresh binding list or \<open>null\<close>. In edit mode \<open>!this.vis.editMode && ...\<close> stops before
  the cache is read. A method found under the template's name is truthy, and its
  \<open>deepClone\<close> throws, since \<open>JSON.stringify\<close> of a function is \<open>undefined\<close>.
\<close>

definition extractBinding ::
  "('m, 'w) host \<Rightarrow> (string \<Rightarrow> VisBinding list option) \<Rightarrow> 'w engine \<Rightarrow> string \<Rightarrow> (exn + parsed) \<times> 'w engine" where
  "extractBinding h parse st format =
     (if format = [] then (Inr PNull, st)
      else
        (case (if editMode (visOpts st) then Missing else cacheGet (bindingsCache st) format) of
           Own a \<Rightarrow>
             (let (r, st1) = alloc (deepCloneBindings h (heap st ! a)) st in (Inr (PList r), st1))
         | ProtoMethod \<Rightarrow> (Inl SyntaxError, st)
         | ProtoObject \<Rightarrow> (Inr PObject, st)
         | Missing \<Rightarrow>
             (let st1 = st\<lparr>parserCalls := parserCalls st @ [format]\<rparr>
              in case parse format of
                   None \<Rightarrow> (Inr PNull, st1)
                 | Some bs \<Rightarrow>
                     (let (result, st2) = alloc bs st1
                      in if \<not> editMode (visOpts st) then
                           (let (c, st3) = alloc (deepCloneBindings h bs) st2
                            in (Inr (PList result),
                                st3\<lparr>bindingsCache := (bindingsCache st3)(format \<mapsto> c)\<rparr>))
                         else (Inr (PList result), st2)))))"


section \<open>SpecialValueResolver: \<open>getSpecialValues\<close>\<close>

text \<open>\<open>widgetData?.name || wid\<close> reads a member, which only the host can answer for a
  value that inherits it.\<close>

definition getSpecialValues ::
  "('m, 'w) host \<Rightarrow> vis \<Rightarrow> jsval \<Rightarrow> jsval \<Rightarrow> jsval \<Rightarrow> jsval \<Rightarrow> exn + jsval" where
  "getSpecialValues h v name view wid widgetData =
     (if name = JStr ''username.val'' then Inr (user v)
      else if name = JStr ''login.val'' then Inr (loginRequired v)
      else if name = JStr ''instance.val'' then Inr (visInstance v)
      else if name = JStr ''language.val'' then Inr (language v)
      else if name = JStr ''wid.val'' then Inr wid
      else if name = JStr ''wname.val'' then
        (if isNullish widgetData then Inr (orElse Undefined wid)
         else (case getProp h widgetData ''name'' of
                 Inl e \<Rightarrow> Inl e
               | Inr n \<Rightarrow> Inr (orElse n wid)))
      else if name = JStr ''view.val'' then Inr view
      else Inr Undefined)"

section \<open>OperatorPipeline\<close>

text \<open>\<open>FormatBindingOptions\<close>; \<open>optFormat\<close> is its field \<open>format\<close>, and \<open>moment\<close> is
  part of \<open>h\<close>. \<open>optValues\<close> is its field \<open>values\<close>, an object read by key only,
  so it is a function.\<close>

record options =
  optFormat :: string
  view :: jsval
  wid :: jsval
  widget :: jsval
  widgetData :: jsval
  optValues :: "(string \<Rightarrow> jsval) option"

definition dquote :: char where "dquote = CHR 0x22"
definition backslash :: char where "backslash = CHR 0x5C"

definition toUpperChar :: "char \<Rightarrow> char" where
  "toUpperChar c =
     (let n = (of_char c :: nat) in if 97 \<le> n \<and> n \<le> 122 then char_of (n - 32) else c)"

definition toUpperCase :: "string \<Rightarrow> string" where
  "toUpperCase s = map toUpperChar s"

text \<open>Sequencing: the next step runs on the result of the one before, and an exception
  ends the run.\<close>

definition andThen :: "exn + 'a \<Rightarrow> ('a \<Rightarrow> exn + 'b) \<Rightarrow> exn + 'b" where
  "andThen r f = (case r of Inl e \<Rightarrow> Inl e | Inr x \<Rightarrow> f x)"

subsection \<open>The script of \<open>eval\<close>\<close>

text \<open>
  \<open>operation.arg[a].visOid.startsWith('widgetOid.') ? values[...replace(/^widgetOid\./g,
  `${widget.data.oid}.`)] : values[...]\<close>: the value of the state that an argument of the
  script names. A \<open>visOid\<close> that is not a string has no \<open>startsWith\<close>, unless it brings
  one; then the key is the host's.
\<close>

definition stateOfArgument ::
  "('m, 'w) host \<Rightarrow> options \<Rightarrow> (string \<Rightarrow> jsval) \<Rightarrow> jsval \<Rightarrow> exn + jsval" where
  "stateOfArgument h opts vals oid =
     (case oid of
        JStr s \<Rightarrow>
          if startsWith s ''widgetOid.'' then
            andThen (getProp h (widget opts) ''data'') (\<lambda>d.
            andThen (getProp h d ''oid'') (\<lambda>oidText.
            andThen (toStr h oidText) (\<lambda>t.
              Inr (vals (getSubstitution ''widgetOid.'' [] (drop 10 s) (t @ ''.'') @ drop 10 s)))))
          else Inr (vals s)
      | _ \<Rightarrow>
          if hasMethods oid then
            andThen (ownMethods h ''visOid'' [oid, widget opts]) (\<lambda>k.
            andThen (toStr h k) (\<lambda>t. Inr (vals t)))
          else Inl TypeError)"

text \<open>The declaration that one resolved argument adds to the script, and the value the
  variable \<open>value\<close> holds afterwards (the loop of \<open>eval\<close> uses the pipeline's own
  \<open>value\<close> variable, and \<open>JSON.parse\<close> assigns to it). The \<open>try\<close> around
  \<open>JSON.parse\<close> also covers the declaration built from its result, and its \<open>catch\<close>
  prints \<open>value\<close> as it then is.\<close>

definition quoted :: "string \<Rightarrow> string \<Rightarrow> string" where
  "quoted name t = ''const '' @ name @ '' = '' @ [dquote] @ t @ [dquote] @ '';''"

definition evalDeclaration :: "('m, 'w) host \<Rightarrow> string \<Rightarrow> jsval \<Rightarrow> exn + string \<times> jsval" where
  "evalDeclaration h name x =
     (case x of
        Null \<Rightarrow> Inr (''const '' @ name @ '' = null;'', x)
      | Undefined \<Rightarrow> Inr (''const '' @ name @ '' = undefined;'', x)
      | JStr s \<Rightarrow>
          (case jsonParse h s of
             None \<Rightarrow> Inr (quoted name s, x)
           | Some p \<Rightarrow>
               if typeof p = ''object'' then
                 (case jsonStringify h p of
                    Inr (JStr t) \<Rightarrow>
                      Inr (''const '' @ name @ '' = JSON.parse('' @ [dquote]
                             @ replaceAll t [dquote] [backslash, dquote] @ [dquote] @ '');'', p)
                  | _ \<Rightarrow> andThen (toStr h p) (\<lambda>t. Inr (quoted name t, p)))
               else andThen (toStr h p) (\<lambda>t. Inr (quoted name t, p)))
      | JBool b \<Rightarrow> Inr (''const '' @ name @ '' = '' @ (if b then ''true'' else ''false'') @ '';'', x)
      | JNum n \<Rightarrow> Inr (''const '' @ name @ '' = '' @ numToString h n @ '';'', x)
      | _ \<Rightarrow>
          if typeof x = ''object'' then
            andThen (jsonStringify h x) (\<lambda>j.
            andThen (toStr h j) (\<lambda>t. Inr (''const '' @ name @ '' = '' @ t @ '';'', x)))
          else
            andThen (callMethod h x ''toString'' []) (\<lambda>r.
            andThen (toStr h r) (\<lambda>t. Inr (''const '' @ name @ '' = '' @ t @ '';'', x))))"

text \<open>The elements \<open>operation.arg[a]\<close> for \<open>a < operation.arg.length\<close>.\<close>

definition evalItems :: "('m, 'w) host \<Rightarrow> jsval \<Rightarrow> (exn + jsval) list" where
  "evalItems h a =
     (case a of
        JArr xs \<Rightarrow> map Inr xs
      | JStr s \<Rightarrow> map (\<lambda>c. Inr (JStr [c])) s
      | JObj kvs \<Rightarrow> if map_of kvs ''length'' = None then [] else arrayLike h a
      | JForeign k n \<Rightarrow> arrayLike h a
      | _ \<Rightarrow> [])"

fun evalArgs ::
  "('m, 'w) host \<Rightarrow> vis \<Rightarrow> options \<Rightarrow> (string \<Rightarrow> jsval) \<Rightarrow> (exn + jsval) list \<Rightarrow> string \<Rightarrow> jsval
     \<Rightarrow> exn + (string \<times> jsval)" where
  "evalArgs h v opts vals [] str value = Inr (str, value)"
| "evalArgs h v opts vals (item # items) str value =
     (case item of
        Inl e \<Rightarrow> Inl e
      | Inr el \<Rightarrow>
          (case getProp h el ''name'' of
             Inl e \<Rightarrow> Inl e
           | Inr name \<Rightarrow>
               if \<not> toBoolean name then evalArgs h v opts vals items str value
               else
                 (case andThen (getProp h el ''visOid'') (\<lambda>oid.
                       andThen (getSpecialValues h v oid (view opts) (wid opts) (widgetData opts)) (\<lambda>special.
                       andThen (if isNullish special then stateOfArgument h opts vals oid else Inr special) (\<lambda>x.
                       andThen (getProp h el ''name'') (\<lambda>name1.
                       andThen (toStr h name1) (\<lambda>n. evalDeclaration h n x))))) of
                    Inl e \<Rightarrow> Inl e
                  | Inr (decl, value1) \<Rightarrow> evalArgs h v opts vals items (str @ decl) value1)))"

text \<open>\<open>w = deepClone(widget); w.data = widgetData; JSON.stringify(w)\<close>, as the template
  literal prints it. The module is strict code, so setting a property on a primitive
  throws.\<close>

definition widgetSnapshot :: "('m, 'w) host \<Rightarrow> options \<Rightarrow> exn + string" where
  "widgetSnapshot h opts =
     andThen (deepClone h (widget opts)) (\<lambda>w.
       andThen
         (case w of
            JObj kvs \<Rightarrow>
              jsonStringify h
                (JObj (if map_of kvs ''data'' = None then kvs @ [(''data'', widgetData opts)]
                       else map (\<lambda>kv. if fst kv = ''data'' then (''data'', widgetData opts) else kv) kvs))
          | JArr xs \<Rightarrow> jsonStringify h w
          | _ \<Rightarrow> Inl TypeError)
         (toStr h))"

text \<open>The text handed to \<open>new Function\<close>, and the value of \<open>value\<close> at that point.\<close>

definition buildScript ::
  "('m, 'w) host \<Rightarrow> vis \<Rightarrow> options \<Rightarrow> (string \<Rightarrow> jsval) \<Rightarrow> operation \<Rightarrow> jsval \<Rightarrow> exn + (string \<times> jsval)" where
  "buildScript h v opts vals operation value =
     (if isNullish (arg operation) then Inl TypeError
      else
        (case evalArgs h v opts vals (evalItems h (arg operation)) [] value of
           Inl e \<Rightarrow> Inl e
         | Inr (str, value1) \<Rightarrow>
             (case (case formula operation of
                      Some f \<Rightarrow>
                        if f \<noteq> [] \<and> includesStr f ''widget.'' then
                          (case widgetSnapshot h opts of
                             Inl e \<Rightarrow> Inl e
                           | Inr w \<Rightarrow> Inr (str @ ''const widget = '' @ w @ '';''))
                        else Inr str
                    | None \<Rightarrow> Inr str) of
                Inl e \<Rightarrow> Inl e
              | Inr str1 \<Rightarrow>
                  (let str2 = str1 @ ''return ''
                                @ (case formula operation of Some f \<Rightarrow> f | None \<Rightarrow> ''undefined'') @ '';''
                   in Inr (if includesStr str2 [backslash, dquote]
                           then replaceAll str2 [backslash, dquote] [dquote] else str2,
                           value1)))))"

subsection \<open>The console\<close>

text \<open>A call of \<open>console.error\<close> or \<open>console.warn\<close>: the console's own method records
  the message; a replacement that a script has put in its place records nothing, and may
  throw.\<close>

definition logWith :: "logger \<Rightarrow> logEntry \<Rightarrow> 'w engine \<Rightarrow> exn option \<times> 'w engine" where
  "logWith l entry st =
     (case l of
        Console \<Rightarrow> (None, st\<lparr>console := console st @ [entry]\<rparr>)
      | Replaced r \<Rightarrow> (r, st))"

definition logError :: "('m, 'w) host \<Rightarrow> string \<Rightarrow> 'w engine \<Rightarrow> exn option \<times> 'w engine" where
  "logError h msg st = logWith (errorLogger h (world st)) (LogError msg) st"

definition logWarn :: "('m, 'w) host \<Rightarrow> string \<Rightarrow> 'w engine \<Rightarrow> exn option \<times> 'w engine" where
  "logWarn h msg st = logWith (warnLogger h (world st)) (LogWarn msg) st"

text \<open>The value that a \<open>catch\<close> receives: the error object of a builtin class, or the
  value that was thrown.\<close>

definition exnValue :: "exn \<Rightarrow> jsval" where
  "exnValue e =
     (case e of
        TypeError \<Rightarrow> JForeign FObject ''TypeError''
      | SyntaxError \<Rightarrow> JForeign FObject ''SyntaxError''
      | RangeError \<Rightarrow> JForeign FObject ''RangeError''
      | Thrown v \<Rightarrow> v)"

text \<open>
  The \<open>catch\<close> block of \<open>eval\<close>: three calls of \<open>console.error\<close>, the third with the
  caught value printed by \<open>${e}\<close>, then \<open>value = 0\<close>. Nothing catches what the block
  itself throws: a \<open>console.error\<close> that throws, or a caught value that has no text.
\<close>

definition catchEval ::
  "('m, 'w) host \<Rightarrow> string \<Rightarrow> string \<Rightarrow> exn \<Rightarrow> 'w engine \<Rightarrow> (exn + jsval) \<times> 'w engine" where
  "catchEval h format script e st =
     (case logError h (''Error in eval[value]: '' @ format) st of
        (Some x, st1) \<Rightarrow> (Inl x, st1)
      | (None, st1) \<Rightarrow>
          (case logError h (''Error in eval[script]: '' @ script) st1 of
             (Some x, st2) \<Rightarrow> (Inl x, st2)
           | (None, st2) \<Rightarrow>
               (case toStr h (exnValue e) of
                  Inl x \<Rightarrow> (Inl x, st2)
                | Inr t \<Rightarrow>
                    (case logError h (''Error in eval[error]: '' @ t) st2 of
                       (Some x, st3) \<Rightarrow> (Inl x, st3)
                     | (None, st3) \<Rightarrow> (Inr (JNum (Fin 0)), st3)))))"

text \<open>The \<open>try\<close> block of \<open>eval\<close>: the script is compiled and run, and an object it
  returns is replaced by its JSON text; whatever either step throws goes to the \<open>catch\<close>
  block. \<open>format\<close> is the template as it stands when the operation runs.\<close>

definition runEval ::
  "('m, 'w) host \<Rightarrow> string \<Rightarrow> string \<Rightarrow> 'w engine \<Rightarrow> (exn + jsval) \<times> 'w engine" where
  "runEval h format script st =
     (let (r, w1) = runScript h (world st) script;
          st1 = st\<lparr>world := w1\<rparr>
      in case andThen r (\<lambda>x. if toBoolean x \<and> typeof x = ''object'' then jsonStringify h x else Inr x) of
           Inr y \<Rightarrow> (Inr y, st1)
         | Inl e \<Rightarrow> catchEval h format script e st1)"


subsection \<open>One operation\<close>

text \<open>The case \<open>json\<close>: a non-empty string is parsed, with a warning when it is not
  JSON; an object is then walked along the path \<open>operation.arg\<close>.\<close>

definition jsonOperation ::
  "('m, 'w) host \<Rightarrow> jsval \<Rightarrow> jsval \<Rightarrow> 'w engine \<Rightarrow> (exn + jsval) \<times> 'w engine" where
  "jsonOperation h a value st =
     (case (case value of
              JStr s \<Rightarrow>
                if s \<noteq> [] then
                  (case jsonParse h s of
                     Some p \<Rightarrow> (Inr p, st)
                   | None \<Rightarrow>
                       (case logWarn h (''Cannot parse JSON string: '' @ s) st of
                          (Some x, st1) \<Rightarrow> (Inl x, st1)
                        | (None, st1) \<Rightarrow> (Inr value, st1)))
                else (Inr value, st)
            | _ \<Rightarrow> (Inr value, st)) of
        (Inl e, st1) \<Rightarrow> (Inl e, st1)
      | (Inr value1, st1) \<Rightarrow>
          if toBoolean value1 \<and> typeof value1 = ''object'' then (getObjPropValue h value1 a, st1)
          else (Inr value1, st1))"

text \<open>The labels of the \<open>switch\<close> in \<open>formatBinding\<close>.\<close>

definition operatorNames :: "string list" where
  "operatorNames =
     [''eval'', ''*'', ''/'', ''+'', ''-'', ''%'', ''round'', ''pow'', ''sqrt'', ''hex'', ''hex2'',
      ''HEX'', ''HEX2'', ''value'', ''array'', ''date'', ''momentDate'', ''min'', ''max'', ''random'',
      ''floor'', ''ceil'', ''json'']"

text \<open>\<open>parseFloat(value) op operation.arg\<close> for an arithmetic operator: the value is
  read first, then the argument is made a number.\<close>

definition arith ::
  "('m, 'w) host \<Rightarrow> (jsnum \<Rightarrow> jsnum \<Rightarrow> jsnum) \<Rightarrow> jsval \<Rightarrow> jsval \<Rightarrow> exn + jsval" where
  "arith h f value a =
     andThen (parseFloat h value) (\<lambda>x. andThen (toNumber h a) (\<lambda>n. Inr (JNum (f x n))))"

text \<open>\<open>Math.round(parseFloat(value)).toString(16)\<close>.\<close>

definition hexOf :: "('m, 'w) host \<Rightarrow> jsval \<Rightarrow> exn + string" where
  "hexOf h value = andThen (parseFloat h value) (\<lambda>x. Inr (toHex h (mathRound x)))"

text \<open>\<open>operation.arg.split(',')\<close> and the call of \<open>formatMomentDate\<close> that follows.\<close>

definition momentOperation :: "('m, 'w) host \<Rightarrow> vis \<Rightarrow> jsval \<Rightarrow> jsval \<Rightarrow> exn + jsval" where
  "momentOperation h v a value =
     (case a of
        JStr s \<Rightarrow>
          (let params = splitOn CHR '','' [] s
           in if length params = 1 then
                formatMomentDate h v value (JStr (params ! 0)) (JBool False)
              else if length params = 2 then
                formatMomentDate h v value (JStr (params ! 0)) (JStr (params ! 1))
              else Inr (JStr ''error''))
      | _ \<Rightarrow> if hasMethods a then ownMethods h ''momentDate''
                  [a, value, dateFormat v, JStr (translate v ''Today''), JStr (translate v ''Yesterday'')] else Inl TypeError)"

text \<open>
  One pass through the \<open>switch (operation.op)\<close>: the new \<open>value\<close>, or the exception that
  leaves \<open>formatBinding\<close>, and the state. \<open>format\<close> is the variable \<open>format\<close> of
  \<open>formatBinding\<close> as it stands when the operation runs, \<open>vals\<close> the object \<open>values\<close>.
\<close>

definition applyOperation ::
  "('m, 'w) host \<Rightarrow> options \<Rightarrow> (string \<Rightarrow> jsval) \<Rightarrow> string \<Rightarrow> operation \<Rightarrow> jsval \<Rightarrow> 'w engine
     \<Rightarrow> (exn + jsval) \<times> 'w engine" where
  "applyOperation h opts vals format operation value st =
     (let v = visOpts st; a = arg operation
      in if op operation = ''eval'' then
           (case buildScript h v opts vals operation value of
              Inl e \<Rightarrow> (Inl e, st)
            | Inr (script, value1) \<Rightarrow> runEval h format script st)
         else if op operation = ''*'' then
           (if \<not> isNullish a then arith h (jsMul h) value a else Inr value, st)
         else if op operation = ''/'' then
           (if \<not> isNullish a then arith h (numDiv h) value a else Inr value, st)
         else if op operation = ''+'' then
           (if \<not> isNullish a then andThen (parseFloat h value) (\<lambda>x. jsPlusVal h (JNum x) a)
            else Inr value, st)
         else if op operation = ''-'' then
           (if \<not> isNullish a then arith h (jsSub h) value a else Inr value, st)
         else if op operation = ''%'' then
           (if \<not> isNullish a then arith h (jsRem h) value a else Inr value, st)
         else if op operation = ''round'' then
           (andThen (parseFloat h value) (\<lambda>x.
              if a = Undefined then Inr (JNum (mathRound x))
              else andThen (toFixed h x a) (\<lambda>s. Inr (JStr s))), st)
         else if op operation = ''pow'' then
           (if a = Undefined then andThen (parseFloat h value) (\<lambda>x. Inr (JNum (jsMul h x x)))
            else arith h (numPow h) value a, st)
         else if op operation = ''sqrt'' then
           (andThen (parseFloat h value) (\<lambda>x. Inr (JNum (numSqrt h x))), st)
         else if op operation = ''hex'' then
           (andThen (hexOf h value) (\<lambda>s. Inr (JStr s)), st)
         else if op operation = ''hex2'' then
           (andThen (hexOf h value) (\<lambda>s. Inr (JStr (if length s < 2 then CHR ''0'' # s else s))), st)
         else if op operation = ''HEX'' then
           (andThen (hexOf h value) (\<lambda>s. Inr (JStr (toUpperCase s))), st)
         else if op operation = ''HEX2'' then
           (andThen (hexOf h value) (\<lambda>s.
              Inr (JStr (if length (toUpperCase s) < 2 then CHR ''0'' # toUpperCase s
                         else toUpperCase s))), st)
         else if op operation = ''value'' then
           (andThen (parseInt10 h a) (\<lambda>d.
            andThen (formatValue h value (JNum d) None) (\<lambda>s. Inr (JStr s))), st)
         else if op operation = ''array'' then
           (andThen (parseInt10 h value) (\<lambda>i. getProp h a (numToString h i)), st)
         else if op operation = ''date'' then
           (case formatDate h v value a Undefined of
              Inl e \<Rightarrow> (Inl e, st)
            | Inr s \<Rightarrow> (Inr (JStr s), st))
         else if op operation = ''momentDate'' then
           (if \<not> isNullish a then (momentOperation h v a value, st) else (Inr value, st))
         else if op operation = ''min'' then
           (andThen (parseFloat h value) (\<lambda>x.
            andThen (toNumber h a) (\<lambda>n. Inr (if numLess x n then a else JNum x))), st)
         else if op operation = ''max'' then
           (andThen (parseFloat h value) (\<lambda>x.
            andThen (toNumber h a) (\<lambda>n. Inr (if numGreater x n then a else JNum x))), st)
         else if op operation = ''random'' then
           (if a = Undefined then Inr (JNum (mathRandom h (randomDraws st)))
            else andThen (toNumber h a) (\<lambda>n. Inr (JNum (jsMul h (mathRandom h (randomDraws st)) n))),
            st\<lparr>randomDraws := randomDraws st + 1\<rparr>)
         else if op operation = ''floor'' then
           (andThen (parseFloat h value) (\<lambda>x. Inr (JNum (mathFloor x))), st)
         else if op operation = ''ceil'' then
           (andThen (parseFloat h value) (\<lambda>x. Inr (JNum (mathCeil x))), st)
         else if op operation = ''json'' then
           jsonOperation h a value st
         else
           (case logWarn h (''Unknown operator: '' @ format) st of
              (Some x, st1) \<Rightarrow> (Inl x, st1)
            | (None, st1) \<Rightarrow> (Inr value, st1)))"


subsection \<open>The pipeline\<close>

fun runOperations ::
  "('m, 'w) host \<Rightarrow> options \<Rightarrow> (string \<Rightarrow> jsval) \<Rightarrow> string \<Rightarrow> operation list \<Rightarrow> jsval \<Rightarrow> 'w engine
     \<Rightarrow> (exn + jsval) \<times> 'w engine" where
  "runOperations h opts vals format [] value st = (Inr value, st)"
| "runOperations h opts vals format (operation # rest) value st =
     (case applyOperation h opts vals format operation value st of
        (Inl e, st1) \<Rightarrow> (Inl e, st1)
      | (Inr value1, st1) \<Rightarrow> runOperations h opts vals format rest value1 st1)"

section \<open>FormattingEngine: \<open>formatBinding\<close>\<close>

text \<open>The value a binding starts from.\<close>

definition resolveValue ::
  "('m, 'w) host \<Rightarrow> vis \<Rightarrow> options \<Rightarrow> (string \<Rightarrow> jsval) \<Rightarrow> VisBinding \<Rightarrow> exn + jsval" where
  "resolveValue h v opts vals oid =
     (if visOid oid \<noteq> [] then
        andThen (getSpecialValues h v (JStr (visOid oid)) (view opts) (wid opts) (widgetData opts))
          (\<lambda>special. Inr (if isNullish special then vals (visOid oid) else special))
      else Inr Undefined)"

text \<open>\<open>format.replace(oid.token, value)\<close>: a value that is a function is called with
  the token, its position and the template, and what it returns is put in the token's
  place as it is; any other value is made a string, whether the token occurs or not, and
  put there with its \<open>$\<close> patterns expanded.\<close>

definition replaceToken :: "('m, 'w) host \<Rightarrow> string \<Rightarrow> string \<Rightarrow> jsval \<Rightarrow> exn + string" where
  "replaceToken h format tok value =
     (if isCallable value then
        (case findFrom tok [] format of
           None \<Rightarrow> Inr format
         | Some (pre, post) \<Rightarrow>
             andThen (callForeign h value Undefined
                        [JStr tok, JNum (Fin (of_nat (length pre))), JStr format]) (\<lambda>r.
             andThen (toStr h r) (\<lambda>t. Inr (pre @ t @ post))))
      else andThen (toStr h value) (\<lambda>t. Inr (replaceFirst format tok t)))"

text \<open>The loop \<open>for (const oid of oids)\<close>: each binding's token is replaced in \<open>format\<close>
  by its final value, and the next binding works on the result.\<close>

fun formatOids ::
  "('m, 'w) host \<Rightarrow> options \<Rightarrow> (string \<Rightarrow> jsval) \<Rightarrow> VisBinding list \<Rightarrow> string \<Rightarrow> 'w engine
     \<Rightarrow> (exn + string) \<times> 'w engine" where
  "formatOids h opts vals [] format st = (Inr format, st)"
| "formatOids h opts vals (oid # oids) format st =
     (case resolveValue h (visOpts st) opts vals oid of
        Inl e \<Rightarrow> (Inl e, st)
      | Inr value0 \<Rightarrow>
          (case (case operations oid of
                   None \<Rightarrow> (Inr value0, st)
                 | Some ops \<Rightarrow> runOperations h opts vals format ops value0 st) of
             (Inl e, st1) \<Rightarrow> (Inl e, st1)
           | (Inr value, st1) \<Rightarrow>
               (case replaceToken h format (token oid) value of
                  Inl e \<Rightarrow> (Inl e, st1)
                | Inr format1 \<Rightarrow> formatOids h opts vals oids format1 st1)))"


text \<open>\<open>format.replace(/{{/g, '{').replace(/}}/g, '}')\<close>.\<close>

definition unescape :: "string \<Rightarrow> string" where
  "unescape s = replaceAll (replaceAll s ''{{'' ''{'') ''}}'' ''}''"

text \<open>\<open>formatBinding(options)\<close>. \<open>for (const oid of oids)\<close> throws a \<open>TypeError\<close>
  when \<open>oids\<close> is \<open>null\<close> or a plain object, neither being iterable.\<close>

definition formatBinding ::
  "('m, 'w) host \<Rightarrow> (string \<Rightarrow> VisBinding list option) \<Rightarrow> options \<Rightarrow> 'w engine \<Rightarrow> (exn + string) \<times> 'w engine" where
  "formatBinding h parse opts st =
     (let vals = (case optValues opts of Some f \<Rightarrow> f | None \<Rightarrow> states (visOpts st))
      in case extractBinding h parse st (optFormat opts) of
           (Inl e, st1) \<Rightarrow> (Inl e, st1)
         | (Inr PNull, st1) \<Rightarrow> (Inl TypeError, st1)
         | (Inr PObject, st1) \<Rightarrow> (Inl TypeError, st1)
         | (Inr (PList oids), st1) \<Rightarrow>
             (case formatOids h opts vals (heap st1 ! oids) (optFormat opts) st1 of
                (Inl e, st2) \<Rightarrow> (Inl e, st2)
              | (Inr format, st2) \<Rightarrow> (Inr (unescape format), st2)))"


section \<open>Callers and invariants\<close>

text \<open>A caller that changes the binding list it holds a reference to.\<close>

definition mutate :: "addr \<Rightarrow> VisBinding list \<Rightarrow> 'w engine \<Rightarrow> 'w engine" where
  "mutate a bs st = st\<lparr>heap := (heap st)[a := bs]\<rparr>"

text \<open>Two calls of \<open>extractBinding\<close> in a row with the same template; in between, the
  caller overwrites the list that the first call handed out with \<open>bs\<close>. The result is
  what each call returned and the state after it.\<close>

definition extractTwice ::
  "('m, 'w) host \<Rightarrow> (string \<Rightarrow> VisBinding list option) \<Rightarrow> 'w engine \<Rightarrow> string \<Rightarrow> VisBinding list
     \<Rightarrow> ((exn + parsed) \<times> 'w engine) \<times> ((exn + parsed) \<times> 'w engine)" where
  "extractTwice h parse st format bs =
     (let first = extractBinding h parse st format;
          st1 = (case fst first of Inr (PList a) \<Rightarrow> mutate a bs (snd first) | _ \<Rightarrow> snd first)
      in (first, extractBinding h parse st1 format))"

text \<open>Every reference stored in the cache points into the heap.\<close>

definition cacheWellFormed :: "'w engine \<Rightarrow> bool" where
  "cacheWellFormed st = (\<forall>k a. bindingsCache st k = Some a \<longrightarrow> a < length (heap st))"

section \<open>A fixture\<close>

text \<open>
  An engine to run the closed examples on: integers are read from the digits in front of a
  text, the arithmetic is that of the rationals, the local time zone is one hour ahead of
  UTC all year (\<open>getTimezoneOffset\<close> is \<open>-60\<close>), the calendar is the proleptic Gregorian
  one, no text is JSON, a \<open>moment\<close> object is its instant in milliseconds, now is
  \<open>1700000000000\<close>, and \<open>moment(...).format(p)\<close> answers with \<open>p\<close> in brackets. A
  script whose text contains \<open>throw Symbol()\<close> throws a symbol, and every other script
  fails to compile; nothing replaces the console's methods. A foreign object prints as its
  name, data inherits nothing, and no foreign function can be called.
\<close>

fun readDigits :: "int \<Rightarrow> string \<Rightarrow> int" where
  "readDigits acc [] = acc"
| "readDigits acc (c # cs) =
     (if isDigit c then readDigits (acc * 10 + (int (of_char c) - 48)) cs else acc)"

definition readInt :: "string \<Rightarrow> jsnum" where
  "readInt s =
     (case s of
        [] \<Rightarrow> NaN
      | c # cs \<Rightarrow>
          if c = CHR ''-'' then
            (case cs of [] \<Rightarrow> NaN
             | d # ds \<Rightarrow> if isDigit d then Fin (of_int (- readDigits 0 cs)) else NaN)
          else if isDigit c then Fin (of_int (readDigits 0 s)) else NaN)"

definition ratOp :: "(rat \<Rightarrow> rat \<Rightarrow> rat) \<Rightarrow> jsnum \<Rightarrow> jsnum \<Rightarrow> jsnum" where
  "ratOp f a b = (case (a, b) of (Fin x, Fin y) \<Rightarrow> Fin (f x y) | _ \<Rightarrow> NaN)"

text \<open>Local time of an instant, and the civil date of a day number (days since
  1970-01-01; a year starts in March while the day of the year is counted).\<close>

definition localMs :: "int \<Rightarrow> int" where
  "localMs t = t + 3600000"

definition yearOfEra :: "int \<Rightarrow> int" where
  "yearOfEra doe = (doe - doe div 1460 + doe div 36524 - doe div 146096) div 365"

definition dayOfYear :: "int \<Rightarrow> int" where
  "dayOfYear doe = doe - (365 * yearOfEra doe + yearOfEra doe div 4 - yearOfEra doe div 100)"

definition monthIndex :: "int \<Rightarrow> int" where
  "monthIndex doe = (5 * dayOfYear doe + 2) div 153"

definition civilYear :: "int \<Rightarrow> int" where
  "civilYear z0 =
     yearOfEra ((z0 + 719468) mod 146097) + (z0 + 719468) div 146097 * 400
       + (if monthIndex ((z0 + 719468) mod 146097) < 10 then 0 else 1)"

definition civilMonth :: "int \<Rightarrow> int" where
  "civilMonth z0 =
     (if monthIndex ((z0 + 719468) mod 146097) < 10 then monthIndex ((z0 + 719468) mod 146097) + 3
      else monthIndex ((z0 + 719468) mod 146097) - 9)"

definition civilDay :: "int \<Rightarrow> int" where
  "civilDay z0 =
     dayOfYear ((z0 + 719468) mod 146097) - (153 * monthIndex ((z0 + 719468) mod 146097) + 2) div 5 + 1"

definition onInstant :: "(int \<Rightarrow> int) \<Rightarrow> jsnum \<Rightarrow> jsnum" where
  "onInstant f t = (case t of Fin r \<Rightarrow> Fin (of_int (f \<lfloor>r\<rfloor>)) | _ \<Rightarrow> NaN)"

definition localYear :: "int \<Rightarrow> int" where
  "localYear t = civilYear (localMs t div 86400000)"

definition localMonth :: "int \<Rightarrow> int" where
  "localMonth t = civilMonth (localMs t div 86400000) - 1"

definition localDate :: "int \<Rightarrow> int" where
  "localDate t = civilDay (localMs t div 86400000)"

definition localHours :: "int \<Rightarrow> int" where
  "localHours t = localMs t div 3600000 mod 24"

definition localMinutes :: "int \<Rightarrow> int" where
  "localMinutes t = localMs t div 60000 mod 60"

definition localSeconds :: "int \<Rightarrow> int" where
  "localSeconds t = localMs t div 1000 mod 60"

definition localMillis :: "int \<Rightarrow> int" where
  "localMillis t = localMs t mod 1000"

definition offsetMinutes :: "int \<Rightarrow> int" where
  "offsetMinutes t = - 60"

definition setLocalMillis :: "jsnum \<Rightarrow> jsnum \<Rightarrow> jsnum" where
  "setLocalMillis t ms =
     (case (t, ms) of
        (Fin r, Fin x) \<Rightarrow> Fin (of_int (\<lfloor>r\<rfloor> - localMillis \<lfloor>r\<rfloor> + \<lfloor>x\<rfloor>))
      | _ \<Rightarrow> NaN)"

definition instantOf :: "jsval \<Rightarrow> int" where
  "instantOf x = (case x of JNum (Fin r) \<Rightarrow> \<lfloor>r\<rfloor> | _ \<Rightarrow> 0)"

definition dayBefore :: "int \<Rightarrow> int" where
  "dayBefore m = m - 86400000"

definition sameLocalDay :: "int \<Rightarrow> int \<Rightarrow> bool" where
  "sameLocalDay a b = (localMs a div 86400000 = localMs b div 86400000)"

definition bracketed :: "int \<Rightarrow> jsval \<Rightarrow> string" where
  "bracketed m p = ''['' @ (case p of JStr f \<Rightarrow> f | _ \<Rightarrow> ''?'') @ '']''"

definition noNumber :: "jsnum \<Rightarrow> jsnum \<Rightarrow> jsnum" where
  "noNumber a b = NaN"

definition notJson :: "string \<Rightarrow> jsval option" where
  "notJson s = None"

definition failingScript :: "unit \<Rightarrow> string \<Rightarrow> (exn + jsval) \<times> unit" where
  "failingScript w s =
     (if includesStr s ''throw Symbol()'' then Inl (Thrown (JForeign FSymbol ''Symbol()''))
      else Inl SyntaxError, w)"

definition printName :: "jsval \<Rightarrow> hint \<Rightarrow> exn + jsval" where
  "printName v hnt = (case v of JForeign k n \<Rightarrow> Inr (JStr n) | _ \<Rightarrow> Inl TypeError)"

definition fixture :: "(int, unit) host" where
  "fixture =
     \<lparr> parseFloatStr = readInt,
       parseIntStr = readInt,
       stringToNumber = readInt,
       numberToString = (\<lambda>n. ''?''),
       numMul = ratOp (*),
       numDiv = ratOp (/),
       numAdd = ratOp (+),
       numSub = ratOp (-),
       numRem = noNumber,
       numPow = noNumber,
       numSqrt = (\<lambda>a. NaN),
       mathRandom = (\<lambda>k. Fin 0),
       jsonParse = notJson,
       jsonStringify = (\<lambda>x. Inr (JStr ''{}'')),
       customJson = (\<lambda>x. None),
       runScript = failingScript,
       errorLogger = (\<lambda>w. Console),
       warnLogger = (\<lambda>w. Console),
       foreignPrimitive = printName,
       inheritedGet = (\<lambda>x k. Inr Undefined),
       callForeign = (\<lambda>f x args. Inl TypeError),
       arrayLike = (\<lambda>x. []),
       ownDateMethods = (\<lambda>d b items. Inl TypeError),
       ownMethods = (\<lambda>n args. Inl TypeError),
       dateParse = (\<lambda>s. NaN),
       dateToString = (\<lambda>t. ''Date''),
       dateToJSON = (\<lambda>t. Null),
       getFullYear = onInstant localYear,
       getMonth = onInstant localMonth,
       getDate = onInstant localDate,
       getHours = onInstant localHours,
       getMinutes = onInstant localMinutes,
       getSeconds = onInstant localSeconds,
       getMilliseconds = onInstant localMillis,
       getTimezoneOffset = onInstant offsetMinutes,
       setMilliseconds = setLocalMillis,
       momentOf = instantOf,
       momentClone = (\<lambda>m. m),
       momentNow = 1700000000000,
       momentSubtractDay = dayBefore,
       momentIsSameDay = sameLocalDay,
       momentFormat = bracketed \<rparr>"

text \<open>The same engine on a page where a script has replaced \<open>console.warn\<close> by a
  function that does nothing.\<close>

definition silent :: "unit \<Rightarrow> logger" where
  "silent w = Replaced None"

definition silentFixture :: "(int, unit) host" where
  "silentFixture = fixture\<lparr>warnLogger := silent\<rparr>"

definition fixtureEval :: operation where
  "fixtureEval =
     \<lparr> op = ''eval'',
       arg = JArr [JObj [(''name'', JStr ''x''), (''visOid'', JStr ''a.val'')]],
       formula = Some ''x +'' \<rparr>"

text \<open>An \<open>eval\<close> operation whose script throws a symbol.\<close>

definition fixtureThrow :: operation where
  "fixtureThrow =
     \<lparr> op = ''eval'',
       arg = JArr [JObj [(''name'', JStr ''x''), (''visOid'', JStr ''a.val'')]],
       formula = Some ''eval(`throw Symbol()`)'' \<rparr>"

text \<open>A parser for five templates; every other text has no binding.\<close>

definition bindingA :: VisBinding where
  "bindingA =
     \<lparr> visOid = ''a.val'', systemOid = ''a'', token = ''{a}'', operations = None,
       bindingFormat = [], isSeconds = False \<rparr>"

definition bindingFoo :: VisBinding where
  "bindingFoo =
     \<lparr> visOid = ''b.val'', systemOid = ''b'', token = ''{b;foo}'',
       operations = Some [\<lparr> op = ''foo'', arg = Undefined, formula = None \<rparr>],
       bindingFormat = [], isSeconds = False \<rparr>"

definition bindingEval :: VisBinding where
  "bindingEval =
     \<lparr> visOid = ''a.val'', systemOid = ''a'', token = ''{a;eval}'',
       operations = Some [fixtureEval], bindingFormat = [], isSeconds = False \<rparr>"

definition bindingThrow :: VisBinding where
  "bindingThrow =
     \<lparr> visOid = ''a.val'', systemOid = ''a'', token = ''{x:a;eval(`throw Symbol()`)}'',
       operations = Some [fixtureThrow], bindingFormat = [], isSeconds = False \<rparr>"

definition bindingPow :: VisBinding where
  "bindingPow =
     \<lparr> visOid = ''a.val'', systemOid = ''a'', token = ''{a;pow(x)}'',
       operations = Some [\<lparr> op = ''pow'', arg = JNum NaN, formula = None \<rparr>],
       bindingFormat = [], isSeconds = False \<rparr>"

definition fixtureParser :: "string \<Rightarrow> VisBinding list option" where
  "fixtureParser s =
     (if s = ''{a}'' then Some [bindingA]
      else if s = ''{a}{b;foo}'' then Some [bindingA, bindingFoo]
      else if s = ''{a;pow(x)}'' then Some [bindingPow]
      else if s = ''v={a;eval}'' then Some [bindingEval]
      else if s = ''v={x:a;eval(`throw Symbol()`)}'' then Some [bindingThrow]
      else None)"

definition fixtureVis :: vis where
  "fixtureVis =
     \<lparr> user = JStr ''admin'',
       loginRequired = JBool False,
       visInstance = JStr ''0'',
       language = JStr ''en'',
       dateFormat = JStr ''DD.MM.YYYY'',
       translate = (\<lambda>w. w),
       editMode = False,
       states = (\<lambda>k. if k = ''a.val'' then JNum (Fin 7) else Undefined) \<rparr>"

definition fixtureEngine :: "unit engine" where
  "fixtureEngine =
     \<lparr> visOpts = fixtureVis,
       bindingsCache = Map.empty,
       heap = [],
       parserCalls = [],
       console = [],
       randomDraws = 0,
       world = () \<rparr>"

text \<open>The same engine in edit mode.\<close>

definition fixtureEditor :: "unit engine" where
  "fixtureEditor = fixtureEngine\<lparr>visOpts := fixtureVis\<lparr>editMode := True\<rparr>\<rparr>"

definition fixtureOptions :: "string \<Rightarrow> options" where
  "fixtureOptions template =
     \<lparr> optFormat = template,
       view = JStr ''main'',
       wid = JStr ''w00001'',
       widget = JObj [(''data'', JObj [(''oid'', JStr ''a'')])],
       widgetData = JObj [(''oid'', JStr ''a'')],
       optValues = None \<rparr>"


section \<open>Properties\<close>

subsection \<open>Evaluation lemmas\<close>

lemma floor_numeral_div: "\<lfloor>numeral a / numeral b :: rat\<rfloor> = numeral a div numeral b"
  by (metis floor_divide_of_int_eq of_int_numeral)

lemma floor_neg_numeral_div: "\<lfloor>- (numeral a / numeral b) :: rat\<rfloor> = - numeral a div numeral b"
  by (metis floor_divide_of_int_eq of_int_numeral of_int_minus minus_divide_left)

lemma natToRadix_small: "n < b \<Longrightarrow> natToRadix b n = [digitChar n]"
  by (simp add: natToRadix.simps)

lemma natToRadix_step:
  "2 \<le> b \<Longrightarrow> b \<le> n \<Longrightarrow> natToRadix b n = natToRadix b (n div b) @ [digitChar (n mod b)]"
  by (subst natToRadix.simps) simp

lemmas digit_simps = natToRadix_small natToRadix_step digitChar_def intToRadix_def

lemma toNumber_primitive [simp]:
  "toNumber h Undefined = Inr NaN" "toNumber h Null = Inr (Fin 0)"
  "toNumber h (JBool b) = Inr (if b then Fin 1 else Fin 0)"
  "toNumber h (JNum n) = Inr n" "toNumber h (JStr s) = Inr (stringToNumber h s)"
  by (simp_all add: toNumber_def toPrimitive_def primToNumber_def)

lemma andThen_simps [simp]: "andThen (Inl e) f = Inl e" "andThen (Inr x) f = f x"
  by (simp_all add: andThen_def)

lemmas number_simps =
  isInteger_def safeInt_def truncRat_def floor_numeral_div floor_neg_numeral_div
  toIntegerOrInfinity_def numToString_def

lemmas char_simps = cyrGhe_def cyrDe_def cyrEmCap_def cyrEm_def cyrEs_def cyrChe_def

lemma fixture_fields:
  "parseFloatStr fixture = readInt"
  "parseIntStr fixture = readInt"
  "stringToNumber fixture = readInt"
  "numberToString fixture = (\<lambda>n. ''?'')"
  "numMul fixture = ratOp (*)"
  "numDiv fixture = ratOp (/)"
  "numAdd fixture = ratOp (+)"
  "numSub fixture = ratOp (-)"
  "jsonParse fixture = notJson"
  "jsonStringify fixture = (\<lambda>x. Inr (JStr ''{}''))"
  "runScript fixture = failingScript"
  "errorLogger fixture = (\<lambda>w. Console)"
  "warnLogger fixture = (\<lambda>w. Console)"
  "foreignPrimitive fixture = printName"
  "getFullYear fixture = onInstant localYear"
  "getMonth fixture = onInstant localMonth"
  "getDate fixture = onInstant localDate"
  "getHours fixture = onInstant localHours"
  "getMinutes fixture = onInstant localMinutes"
  "getSeconds fixture = onInstant localSeconds"
  "getMilliseconds fixture = onInstant localMillis"
  "getTimezoneOffset fixture = onInstant offsetMinutes"
  "setMilliseconds fixture = setLocalMillis"
  "momentOf fixture = instantOf"
  "momentClone fixture = (\<lambda>m. m)"
  "momentNow fixture = 1700000000000"
  "momentSubtractDay fixture = dayBefore"
  "momentIsSameDay fixture = sameLocalDay"
  "momentFormat fixture = bracketed"
  by (simp_all add: fixture_def)

lemmas fixture_date_simps =
  fixture_fields onInstant_def localMs_def civilYear_def civilMonth_def civilDay_def
  monthIndex_def dayOfYear_def yearOfEra_def localYear_def localMonth_def localDate_def
  localHours_def localMinutes_def localSeconds_def localMillis_def offsetMinutes_def
  setLocalMillis_def

lemma hasMethods_data [simp]:
  "\<not> hasMethods (JDate t)" "\<not> hasMethods (JStr s)" "\<not> hasMethods (JNum n)"
  "\<not> hasMethods (JArr xs)" "\<not> hasMethods Undefined" "\<not> hasMethods Null" "\<not> hasMethods (JBool b)"
  by (simp_all add: hasMethods_def)

lemma appendVal_string [simp]: "appendVal h s (JStr t) = Inr (s @ t)"
  by (simp add: appendVal_def toPrimitive_def primToStr_def)

lemmas date_simps =
  renderDate_def shiftByOffset_def formatItems_def put_def dateField_def pad2_def
  validFormatChars_def includesStr_def jsAdd_def jsMul_def jsRem_def timeClip_def

lemma parseFloat_number [simp]: "parseFloat h (JNum n) = Inr n"
  by (simp add: parseFloat_def)

lemma typeof_number [simp]: "typeof (JNum n) = ''number''"
  by (simp add: typeof_def)

lemma readInt_abc: "readInt ''abc'' = NaN"
  by (simp add: readInt_def isDigit_def)

lemma readInt_5: "readInt ''5'' = Fin 5"
  by (simp add: readInt_def isDigit_def)

lemma toStr_zero: "toStr h (JNum (Fin 0)) = Inr ''0''"
  by (simp add: number_simps digit_simps)

text \<open>A plain object whose own \<open>toString\<close> is no function has no text and no number:
  \<open>JSON.parse('{"toString":1}')\<close> is such an object.\<close>

lemma no_text:
  "toStr h (JObj [(''toString'', JNum (Fin 1))]) = Inl TypeError"
  "toNumber h (JObj [(''toString'', JNum (Fin 1))]) = Inl TypeError"
  "parseFloat h (JObj [(''toString'', JNum (Fin 1))]) = Inl TypeError"
  by (simp_all add: parseFloat_def toNumber_def toPrimitive_def objectToPrimitive_def
        tryMethod_def isCallable_def)

lemma plain_object_text: "toStr h (JObj []) = Inr ''[object Object]''"
  by (simp add: objectToPrimitive_def tryMethod_def primToStr_def)

subsection \<open>ValueFormatter\<close>

lemma toFixed_example: "toFixed h (Fin (2469 / 2)) (JNum (Fin 2)) = Inr ''1234.50''"
  by (simp add: toFixed_def number_simps fixedDigits_def padZeros_def digit_simps)

lemma formatValue_not_numeric:
  "parseFloat h value = Inr NaN \<Longrightarrow> formatValue h value decimals pair = Inr []"
  by (cases "value") (simp_all add: formatValue_def Let_def isNaN_def)

lemma formatValue_throws:
  "parseFloat h value = Inl e \<Longrightarrow> formatValue h value decimals pair = Inl e"
  by (cases "value") (simp_all add: formatValue_def Let_def)

lemma formatValue_number:
  assumes "typeof decimals = ''number''" and "n \<noteq> NaN"
    and "toFixed h n (if toBoolean decimals then decimals else JNum (Fin 0)) = Inr s"
  shows "formatValue h (JNum n) decimals pair =
     Inr (insertGroups (pairChar (Some (case pair of None \<Rightarrow> ''.,'' | Some f \<Rightarrow> f)) 0) False
            (replaceFirst s (pairChar (Some (case pair of None \<Rightarrow> ''.,'' | Some f \<Rightarrow> f)) 0)
               (pairChar (Some (case pair of None \<Rightarrow> ''.,'' | Some f \<Rightarrow> f)) 1)))"
  using assms by (simp add: formatValue_def Let_def isNaN_def)

lemma formatValue_example:
  "formatValue h (JNum (Fin (2469 / 2))) (JNum (Fin 2)) pair =
     Inr (insertGroups (pairChar (Some (case pair of None \<Rightarrow> ''.,'' | Some f \<Rightarrow> f)) 0) False
            (replaceFirst ''1234.50'' (pairChar (Some (case pair of None \<Rightarrow> ''.,'' | Some f \<Rightarrow> f)) 0)
               (pairChar (Some (case pair of None \<Rightarrow> ''.,'' | Some f \<Rightarrow> f)) 1)))"
  by (rule formatValue_number) (simp_all add: toBoolean_def toFixed_example)

lemma formatValue_pairs:
  "formatValue h (JNum (Fin (2469 / 2))) (JNum (Fin 2)) None = Inr ''1.234,50''"
  "formatValue h (JNum (Fin (2469 / 2))) (JNum (Fin 2)) (Some '',.'') = Inr ''1,234.50''"
  "formatValue h (JNum (Fin (2469 / 2))) (JNum (Fin 2)) (Some ''ab'') = Inr ''1a234.50''"
  "formatValue h (JNum (Fin (2469 / 2))) (JNum (Fin 2)) (Some '';:'') = Inr ''1;234.50''"
  by (simp_all add: formatValue_example pairChar_def replaceFirst_def isDigit_def isWordChar_def)

text \<open>
  Claim C6, amended. \<open>formatValue(1234.5, 2)\<close> with the separator pair omitted returns
  \<open>"1.234,50"\<close>. The value is fixed to the decimal count; in that text the first occurrence
  of the pair's first character is replaced by the pair's second character, and then the
  pair's first character is put in as group separator wherever, after a digit, a letter or
  an underscore, a run of digits begins whose length is a multiple of three (in the
  examples here: before the last three digits of the integer part). So the decimal point is
  replaced only when the pair starts with a point: the default \<open>".,"\<close> gives
  \<open>"1.234,50"\<close>, the pair \<open>",."\<close> gives \<open>"1,234.50"\<close>, and the pair \<open>"ab"\<close> gives
  \<open>"1a234.50"\<close>. For every value whose float coercion is \<open>NaN\<close> \<open>formatValue\<close>
  returns the empty string; when the coercion throws, so does \<open>formatValue\<close>.
\<close>

theorem formatValue_default_pair:
  "formatValue h (JNum (Fin 1234.5)) (JNum (Fin 2)) None = Inr ''1.234,50''
   \<and> formatValue h (JNum (Fin 1234.5)) (JNum (Fin 2)) (Some '',.'') = Inr ''1,234.50''
   \<and> formatValue h (JNum (Fin 1234.5)) (JNum (Fin 2)) (Some ''ab'') = Inr ''1a234.50''
   \<and> (typeof decimals = ''number'' \<and> n \<noteq> NaN
        \<and> toFixed h n (if toBoolean decimals then decimals else JNum (Fin 0)) = Inr s \<longrightarrow>
        formatValue h (JNum n) decimals pair =
          Inr (insertGroups (pairChar (Some (case pair of None \<Rightarrow> ''.,'' | Some f \<Rightarrow> f)) 0) False
                 (replaceFirst s (pairChar (Some (case pair of None \<Rightarrow> ''.,'' | Some f \<Rightarrow> f)) 0)
                    (pairChar (Some (case pair of None \<Rightarrow> ''.,'' | Some f \<Rightarrow> f)) 1))))
   \<and> (parseFloat h value = Inr NaN \<longrightarrow> formatValue h value decimals pair = Inr [])
   \<and> (parseFloat h value = Inl e \<longrightarrow> formatValue h value decimals pair = Inl e)"
  by (simp add: formatValue_pairs formatValue_not_numeric formatValue_throws formatValue_number)

theorem formatValue_default_pair_witness:
  "typeof (JNum (Fin 2)) = ''number'' \<and> Fin 1234.5 \<noteq> NaN
   \<and> toFixed fixture (Fin 1234.5) (if toBoolean (JNum (Fin 2)) then JNum (Fin 2) else JNum (Fin 0))
       = Inr ''1234.50''
   \<and> formatValue fixture (JNum (Fin 1234.5)) (JNum (Fin 2)) (Some '';:'') = Inr ''1;234.50''
   \<and> parseFloat fixture (JStr ''abc'') = Inr NaN
   \<and> formatValue fixture (JStr ''abc'') (JNum (Fin 2)) (Some '';:'') = Inr []
   \<and> parseFloat fixture (JObj [(''toString'', JNum (Fin 1))]) = Inl TypeError
   \<and> formatValue fixture (JObj [(''toString'', JNum (Fin 1))]) (JNum (Fin 2)) None = Inl TypeError"
proof -
  have fixed: "toFixed fixture (Fin 1234.5)
      (if toBoolean (JNum (Fin 2)) then JNum (Fin 2) else JNum (Fin 0)) = Inr ''1234.50''"
    by (simp add: toBoolean_def toFixed_example)
  have nan: "parseFloat fixture (JStr ''abc'') = Inr NaN"
    by (simp add: parseFloat_def fixture_fields readInt_abc)
  have thrown: "parseFloat fixture (JObj [(''toString'', JNum (Fin 1))]) = Inl TypeError"
    by (rule no_text)
  from formatValue_default_pair [of fixture "JNum (Fin 2)" "Fin 1234.5" "''1234.50''" "Some '';:''"
      "JStr ''abc''" TypeError]
    formatValue_default_pair [of fixture "JNum (Fin 2)" "Fin 1234.5" "''1234.50''" None
      "JObj [(''toString'', JNum (Fin 1))]" TypeError]
    fixed nan thrown
  show ?thesis
    by (simp add: pairChar_def replaceFirst_def isDigit_def isWordChar_def)
qed

text \<open>The claim as it was written expects \<open>"1,234.50"\<close> from the default pair.\<close>

theorem formatValue_default_pair_counterexample:
  "formatValue fixture (JNum (Fin 1234.5)) (JNum (Fin 2)) None \<noteq> Inr ''1,234.50''"
  by (simp add: formatValue_pairs)

subsection \<open>DateFormatter\<close>

lemma falsy_values:
  "dateObj \<in> set [Null, Undefined, JStr [], JBool False, JNum (Fin 0)] \<Longrightarrow> \<not> toBoolean dateObj"
  by (auto simp: toBoolean_def)

text \<open>
  Claim C10. For every falsy date input (\<open>null\<close>, \<open>undefined\<close>, the empty string,
  \<open>false\<close>, the number \<open>0\<close>) \<open>formatDate\<close> and \<open>formatMomentDate\<close> return the empty
  string, whatever the engine's parser, getters and calendar library do: nothing of them is
  consulted. In particular the instant \<open>0\<close> is never formatted as a date.
\<close>

theorem falsy_date_is_empty:
  "dateObj \<in> set [Null, Undefined, JStr [], JBool False, JNum (Fin 0)] \<Longrightarrow>
     formatDate h v dateObj isDuration pattern = Inr []
     \<and> formatMomentDate h v dateObj pattern useTodayOrYesterday = Inr (JStr [])"
  using falsy_values [of dateObj]
  by (simp add: formatDate_def formatMomentDate_def Let_def split: prod.splits)

theorem falsy_date_is_empty_witness:
  "JNum (Fin 0) \<in> set [Null, Undefined, JStr [], JBool False, JNum (Fin 0)]
   \<and> formatDate fixture fixtureVis (JNum (Fin 0)) Undefined (JStr ''DD.MM.YYYY'') = Inr []
   \<and> formatMomentDate fixture fixtureVis (JNum (Fin 0)) (JStr ''DD.MM.YYYY'') (JBool False) = Inr (JStr [])"
  using falsy_date_is_empty [of "JNum (Fin 0)" fixture fixtureVis Undefined "JStr ''DD.MM.YYYY''" "JBool False"]
  by simp

lemma isInteger_Ints: "isInteger r \<longleftrightarrow> r \<in> \<int>"
  by (auto simp: isInteger_def elim: Ints_cases)

lemma isInteger_mult: "isInteger a \<Longrightarrow> isInteger b \<Longrightarrow> isInteger (a * b)"
  by (simp add: isInteger_Ints)

lemma isInteger_numeral [simp]: "isInteger (numeral k)"
  by (simp add: isInteger_Ints)

lemma truncRat_integer: "isInteger r \<Longrightarrow> of_int (truncRat r) = r"
  by (auto simp: truncRat_def isInteger_Ints elim!: Ints_cases)

lemma timeClip_integer:
  "isInteger r \<Longrightarrow> \<bar>r\<bar> \<le> 8640000000000000 \<Longrightarrow> timeClip (Fin r) = Fin r"
  by (simp add: timeClip_def truncRat_integer)

lemma parseInt10_integer:
  "isInteger r \<Longrightarrow> \<bar>r\<bar> < 10 ^ 21 \<Longrightarrow> parseInt10 h (JNum (Fin r)) = Inr (Fin r)"
  by (simp add: parseInt10_def)

lemma newDate_number [simp]: "newDate h (JNum n) = Inr (JDate (timeClip n))"
  by (simp add: newDate_def toPrimitive_def primToNumber_def)

lemma jsMul_seconds:
  assumes "isInteger r" "946681200 \<le> r" "r < 946681200000"
  shows "jsMul h (Fin r) (Fin 1000) = Fin (r * 1000)"
proof -
  have "safeInt r" using assms by (simp add: safeInt_def)
  moreover have "safeInt 1000" by (simp add: safeInt_def)
  moreover have "safeInt (r * 1000)" using assms by (simp add: safeInt_def isInteger_mult)
  ultimately show ?thesis by (simp add: jsMul_def)
qed

lemma dateOfValue_duration:
  assumes "isInteger r" "- (10 ^ 21) < r" "r < 946681200"
  shows "dateOfValue h (JNum (Fin r)) b = Inr (True, JDate (timeClip (Fin r)))"
proof -
  have "\<bar>r\<bar> < 10 ^ 21" using assms by simp
  then show ?thesis using assms
    by (simp add: dateOfValue_def Let_def parseInt10_integer strictEqNum_def)
qed

lemma dateOfValue_seconds:
  assumes "isInteger r" "946681200 \<le> r" "r < 946681200000"
  shows "dateOfValue h (JNum (Fin r)) b = Inr (b, JDate (Fin (r * 1000)))"
proof -
  have "\<bar>r\<bar> < 10 ^ 21" using assms by simp
  moreover have "timeClip (Fin (r * 1000)) = Fin (r * 1000)"
    using assms by (intro timeClip_integer) (simp_all add: isInteger_mult)
  ultimately show ?thesis using assms
    by (simp add: dateOfValue_def Let_def parseInt10_integer strictEqNum_def jsMul_seconds)
qed

lemma dateOfValue_millis:
  assumes "946681200000 \<le> r"
  shows "dateOfValue h (JNum (Fin r)) b = Inr (b, JDate (timeClip (Fin r)))"
proof -
  obtain j where j: "parseInt10 h (JNum (Fin r)) = Inr j"
    by (cases "parseInt10 h (JNum (Fin r))") (auto simp: parseInt10_def)
  show ?thesis
  proof (cases "strictEqNum j (JNum (Fin r))")
    case True
    then have "j = Fin r" by (simp add: strictEqNum_def)
    then show ?thesis using assms j by (simp add: dateOfValue_def Let_def strictEqNum_def)
  next
    case False
    then show ?thesis using j by (simp add: dateOfValue_def Let_def)
  qed
qed

lemma renderDate_duration:
  "renderDate h True (JDate t) p =
     formatLoop h
       (JDate (setMilliseconds h t
          (jsAdd h (getMilliseconds h t) (jsMul h (jsMul h (getTimezoneOffset h t) (Fin 60)) (Fin 1000)))))
       (formatItems h p) [] []"
  by (simp add: renderDate_def shiftByOffset_def)

lemma renderDate_instant:
  "renderDate h False (JDate t) p = formatLoop h (JDate t) (formatItems h p) [] []"
  by (simp add: renderDate_def)

lemma formatDate_number:
  "r \<noteq> 0 \<Longrightarrow> dateOfValue h (JNum (Fin r)) (fst (normalizeDuration a b)) = Inr (d, x) \<Longrightarrow>
     formatDate h v (JNum (Fin r)) a b = renderDate h d x (defaultPattern v (snd (normalizeDuration a b)))"
  by (cases "normalizeDuration a b") (simp add: formatDate_def toBoolean_def)

text \<open>
  Claim C4, amended. For every integer input of \<open>formatDate\<close> other than \<open>0\<close>: below
  \<open>946681200\<close> (and above \<open>-10^21\<close>) it is a duration, whatever flag was passed: the
  date is \<open>new Date(value)\<close>, and it is moved by its own time zone offset through
  \<open>setMilliseconds(getMilliseconds() + getTimezoneOffset() * 60 * 1000)\<close>, once, before
  the pattern reads any field; from \<open>946681200\<close> and below \<open>946681200000\<close> it is seconds
  since the epoch, multiplied by \<open>1000\<close>; from \<open>946681200000\<close> on it is milliseconds
  since the epoch. In the last two cases the date is moved only when the caller asked for a
  duration. (The number \<open>0\<close> is falsy and gives the empty string, see C10.)
\<close>

theorem formatDate_numeric_input:
  assumes "isInteger r" and "r \<noteq> 0"
  shows "(- (10 ^ 21) < r \<and> r < 946681200 \<longrightarrow>
           formatDate h v (JNum (Fin r)) a b =
             renderDate h True (JDate (timeClip (Fin r))) (defaultPattern v (snd (normalizeDuration a b))))
       \<and> (946681200 \<le> r \<and> r < 946681200000 \<longrightarrow>
           formatDate h v (JNum (Fin r)) a b =
             renderDate h (fst (normalizeDuration a b)) (JDate (Fin (r * 1000)))
               (defaultPattern v (snd (normalizeDuration a b))))
       \<and> (946681200000 \<le> r \<longrightarrow>
           formatDate h v (JNum (Fin r)) a b =
             renderDate h (fst (normalizeDuration a b)) (JDate (timeClip (Fin r)))
               (defaultPattern v (snd (normalizeDuration a b))))
       \<and> renderDate h True (JDate t) p =
           formatLoop h
             (JDate (setMilliseconds h t
                (jsAdd h (getMilliseconds h t)
                   (jsMul h (jsMul h (getTimezoneOffset h t) (Fin 60)) (Fin 1000)))))
             (formatItems h p) [] []
       \<and> renderDate h False (JDate t) p = formatLoop h (JDate t) (formatItems h p) [] []"
  using assms
  by (simp add: formatDate_number dateOfValue_duration dateOfValue_seconds dateOfValue_millis
        renderDate_duration renderDate_instant)

lemma normalizeDuration_pattern:
  "normalizeDuration (JStr ''hh:mm:ss.sss'') Undefined = (False, JStr ''hh:mm:ss.sss'')"
  "normalizeDuration (JStr ''YYYY-MM-DD hh:mm'') Undefined = (False, JStr ''YYYY-MM-DD hh:mm'')"
  "normalizeDuration (JStr ''hh:mm'') Undefined = (False, JStr ''hh:mm'')"
  by (simp_all add: normalizeDuration_def toLowerCase_def typeof_def)

lemma defaultPattern_given: "s \<noteq> [] \<Longrightarrow> defaultPattern v (JStr s) = JStr s"
  by (simp add: defaultPattern_def orElse_def toBoolean_def)

lemma render_duration_100:
  "renderDate fixture True (JDate (Fin 100)) (JStr ''hh:mm:ss.sss'') = Inr ''00:00:00.100''"
  by (simp add: date_simps fixture_date_simps number_simps digit_simps char_simps)

lemma render_instant_2000:
  "renderDate fixture False (JDate (Fin 946684800000)) (JStr ''YYYY-MM-DD hh:mm'') = Inr ''2000-01-01 01:00''"
  by (simp add: date_simps fixture_date_simps number_simps digit_simps char_simps)

lemma render_duration_0:
  "renderDate fixture True (JDate (Fin 0)) (JStr ''hh:mm'') = Inr ''00:00''"
  by (simp add: date_simps fixture_date_simps number_simps digit_simps char_simps)

lemma timeClip_examples:
  "timeClip (Fin 0) = Fin 0" "timeClip (Fin 100) = Fin 100"
  "timeClip (Fin 946684800000) = Fin 946684800000"
  by (simp_all add: timeClip_integer isInteger_Ints)

theorem formatDate_numeric_input_witness:
  "isInteger 100 \<and> (100 :: rat) \<noteq> 0
   \<and> formatDate fixture fixtureVis (JNum (Fin 100)) (JStr ''hh:mm:ss.sss'') Undefined
       = Inr ''00:00:00.100''
   \<and> formatDate fixture fixtureVis (JNum (Fin 946684800)) (JStr ''YYYY-MM-DD hh:mm'') Undefined
       = Inr ''2000-01-01 01:00''
   \<and> formatDate fixture fixtureVis (JNum (Fin 946684800000)) (JStr ''YYYY-MM-DD hh:mm'') Undefined
       = Inr ''2000-01-01 01:00''"
  using formatDate_numeric_input [of 100 fixture fixtureVis "JStr ''hh:mm:ss.sss''" Undefined]
    formatDate_numeric_input [of 946684800 fixture fixtureVis "JStr ''YYYY-MM-DD hh:mm''" Undefined]
    formatDate_numeric_input [of 946684800000 fixture fixtureVis "JStr ''YYYY-MM-DD hh:mm''" Undefined]
  by (simp add: normalizeDuration_pattern defaultPattern_given timeClip_examples
        render_duration_100 render_instant_2000)

text \<open>The claim as it was written covers the integer \<open>0\<close>, which is below the threshold
  and would print as the duration \<open>00:00\<close>.\<close>

theorem formatDate_numeric_input_counterexample:
  "isInteger 0 \<and> (0 :: rat) < 946681200
   \<and> formatDate fixture fixtureVis (JNum (Fin 0)) (JStr ''hh:mm'') Undefined = Inr []
   \<and> renderDate fixture True (JDate (timeClip (Fin 0))) (JStr ''hh:mm'') = Inr ''00:00''"
  by (simp add: formatDate_def toBoolean_def isInteger_def timeClip_examples render_duration_0
        split: prod.splits)

lemma defaultPattern_idem: "defaultPattern v (dateFormat v) = defaultPattern v Undefined"
  by (simp add: defaultPattern_def orElse_def toBoolean_def)

lemma defaultPattern_empty: "defaultPattern v (JStr []) = defaultPattern v Undefined"
  by (simp add: defaultPattern_def orElse_def toBoolean_def)

lemma formatDate_no_pattern:
  "formatDate h v value Undefined Undefined = formatDate h v value (JBool False) (dateFormat v)"
  by (simp add: formatDate_def normalizeDuration_def typeof_def defaultPattern_idem
        cong: sum.case_cong prod.case_cong)

lemma formatMomentDate_no_pattern:
  "formatMomentDate h v value Undefined u = formatMomentDate h v value (dateFormat v) u"
  by (simp add: formatMomentDate_def defaultPattern_idem Let_def cong: option.case_cong)

lemma formatMomentDate_empty_pattern:
  "formatMomentDate h v value (JStr []) u = formatMomentDate h v value (dateFormat v) u"
  by (simp add: formatMomentDate_def defaultPattern_idem defaultPattern_empty Let_def
        cong: option.case_cong)

lemma date_operation:
  "applyOperation h opts vals fmt \<lparr>op = ''date'', arg = a, formula = f\<rparr> value st =
     (case formatDate h (visOpts st) value a Undefined of
        Inl e \<Rightarrow> (Inl e, st)
      | Inr s \<Rightarrow> (Inr (JStr s), st))"
  by (simp add: applyOperation_def Let_def)

lemma momentDate_absent:
  "isNullish a \<Longrightarrow>
     applyOperation h opts vals fmt \<lparr>op = ''momentDate'', arg = a, formula = f\<rparr> value st = (Inr value, st)"
  by (simp add: applyOperation_def Let_def)

lemma momentDate_empty:
  "applyOperation h opts vals fmt \<lparr>op = ''momentDate'', arg = JStr [], formula = f\<rparr> value st =
     (formatMomentDate h (visOpts st) value (JStr []) (JBool False), st)"
  by (simp add: applyOperation_def Let_def isNullish_def momentOperation_def)

text \<open>
  Claim C8, amended. When no pattern is supplied, \<open>formatDate\<close> and \<open>formatMomentDate\<close>
  render as if the engine's configured default date pattern had been passed, and the
  \<open>date\<close> operation with an absent argument formats the current value that way. The
  \<open>momentDate\<close> operation formats with the default pattern when its argument is the empty
  text; with an absent argument (\<open>undefined\<close> or \<open>null\<close>) it does not format at all and
  leaves the current value as it is.
\<close>

theorem default_date_pattern:
  "formatDate h v value Undefined Undefined = formatDate h v value (JBool False) (dateFormat v)
   \<and> formatMomentDate h v value Undefined u = formatMomentDate h v value (dateFormat v) u
   \<and> applyOperation h opts vals fmt \<lparr>op = ''date'', arg = Undefined, formula = f\<rparr> value st =
       (case formatDate h (visOpts st) value (JBool False) (dateFormat (visOpts st)) of
          Inl e \<Rightarrow> (Inl e, st)
        | Inr s \<Rightarrow> (Inr (JStr s), st))
   \<and> applyOperation h opts vals fmt \<lparr>op = ''momentDate'', arg = JStr [], formula = f\<rparr> value st =
       (formatMomentDate h (visOpts st) value (dateFormat (visOpts st)) (JBool False), st)
   \<and> (isNullish a \<longrightarrow>
        applyOperation h opts vals fmt \<lparr>op = ''momentDate'', arg = a, formula = f\<rparr> value st =
          (Inr value, st))"
  by (simp add: date_operation momentDate_absent momentDate_empty formatMomentDate_empty_pattern
        formatDate_no_pattern [symmetric] formatMomentDate_no_pattern [symmetric])

lemma fixture_engine_vis [simp]: "visOpts fixtureEngine = fixtureVis"
  by (simp add: fixtureEngine_def)

lemma fixture_dateFormat [simp]: "dateFormat fixtureVis = JStr ''DD.MM.YYYY''"
  by (simp add: fixtureVis_def)

lemma fixture_translate [simp]: "translate fixtureVis w = w"
  by (simp add: fixtureVis_def)

lemma render_instant_2023:
  "renderDate fixture False (JDate (Fin 1700000000000)) (JStr ''DD.MM.YYYY'') = Inr ''14.11.2023''"
  by (simp add: date_simps fixture_date_simps number_simps digit_simps char_simps)

lemma formatDate_2023:
  "formatDate fixture fixtureVis (JNum (Fin 1700000000000)) (JBool False) (JStr ''DD.MM.YYYY'')
     = Inr ''14.11.2023''"
proof -
  have "dateOfValue fixture (JNum (Fin 1700000000000)) (fst (normalizeDuration (JBool False) (JStr ''DD.MM.YYYY'')))
      = Inr (False, JDate (Fin 1700000000000))"
    by (simp add: dateOfValue_millis normalizeDuration_def typeof_def timeClip_integer)
  from formatDate_number [OF _ this] show ?thesis
    by (simp add: normalizeDuration_def typeof_def defaultPattern_given render_instant_2023)
qed

lemmas moment_simps =
  momentOfValue_def parseIntFailure_def renderMoment_def replaceWeekday_def replaceCall_def
  replaceFirst_def parseInt10_integer
  strictEqNum_def jsMul_def safeInt_def toBoolean_def typeof_def
  fixture_fields instantOf_def dayBefore_def sameLocalDay_def bracketed_def localMs_def

lemma formatMomentDate_2023:
  "formatMomentDate fixture fixtureVis (JNum (Fin 1700000000000)) (JStr ''DD.MM.YYYY'') (JBool False)
     = Inr (JStr ''[DD.MM.YYYY]'')"
  by (simp add: formatMomentDate_def defaultPattern_given moment_simps Let_def)

theorem default_date_pattern_witness:
  "isNullish Null
   \<and> applyOperation fixture (fixtureOptions ''{a;momentDate}'') (states fixtureVis) ''{a;momentDate}''
        \<lparr>op = ''momentDate'', arg = Null, formula = None\<rparr> (JNum (Fin 1700000000000)) fixtureEngine
       = (Inr (JNum (Fin 1700000000000)), fixtureEngine)
   \<and> applyOperation fixture (fixtureOptions ''{a;date}'') (states fixtureVis) ''{a;date}''
        \<lparr>op = ''date'', arg = Undefined, formula = None\<rparr> (JNum (Fin 1700000000000)) fixtureEngine
       = (Inr (JStr ''14.11.2023''), fixtureEngine)"
  using default_date_pattern [of fixture fixtureVis "JNum (Fin 1700000000000)" Undefined
      "fixtureOptions ''{a;date}''" "states fixtureVis" "''{a;date}''" None fixtureEngine Null]
    default_date_pattern [of fixture fixtureVis "JNum (Fin 1700000000000)" Undefined
      "fixtureOptions ''{a;momentDate}''" "states fixtureVis" "''{a;momentDate}''" None fixtureEngine Null]
  by (simp add: isNullish_def formatDate_2023)

text \<open>The claim as it was written has \<open>momentDate\<close> with an absent argument format the
  value with the default pattern, as \<open>formatMomentDate\<close> would.\<close>

theorem default_date_pattern_counterexample:
  "fst (applyOperation fixture (fixtureOptions ''{a;momentDate}'') (states fixtureVis) ''{a;momentDate}''
          \<lparr>op = ''momentDate'', arg = Undefined, formula = None\<rparr> (JNum (Fin 1700000000000)) fixtureEngine)
     = Inr (JNum (Fin 1700000000000))
   \<and> formatMomentDate fixture fixtureVis (JNum (Fin 1700000000000)) (dateFormat fixtureVis) (JBool False)
     = Inr (JStr ''[DD.MM.YYYY]'')"
  by (simp add: momentDate_absent isNullish_def formatMomentDate_2023)

lemma momentOfValue_Inl: "momentOfValue h dateObj = Inl m \<Longrightarrow> parseIntFailure h dateObj = None"
  by (auto simp: momentOfValue_def parseIntFailure_def Let_def split: sum.splits if_splits)

lemma formatMomentDate_flagged:
  assumes "toBoolean dateObj" and "toBoolean u" and "momentOfValue h dateObj = Inl m"
  shows "formatMomentDate h v dateObj pattern u =
     (case (if momentIsSameDay h m (momentNow h)
            then (case replaceWeekday h (defaultPattern v pattern) (translate v ''Today'') of
                    Inl e \<Rightarrow> Inl e
                  | Inr p \<Rightarrow> Inr (renderMoment h (Inl m) p))
            else Inr Undefined) of
        Inl e \<Rightarrow> Inl e
      | Inr result \<Rightarrow>
          if momentIsSameDay h m (momentSubtractDay h (momentNow h))
          then (case replaceWeekday h (defaultPattern v pattern) (translate v ''Yesterday'') of
                  Inl e \<Rightarrow> Inl e
                | Inr p \<Rightarrow> Inr (renderMoment h (Inl m) p))
          else Inr result)"
proof -
  have "typeof u \<noteq> ''undefined''" using assms(2)
    by (cases u) (simp_all add: typeof_def toBoolean_def split: kind.splits)
  then show ?thesis using assms by (simp add: formatMomentDate_def Let_def momentOfValue_Inl)
qed

text \<open>
  Claim C7, where the code falls short. With today-or-yesterday substitution on, an instant
  of the current day is rendered with the weekday tokens replaced by the word for today,
  and one of the day before with the word for yesterday. An instant of any other day
  assigns nothing to \<open>result\<close>: the \<open>else\<close> that renders the plain pattern belongs to
  \<open>if (useTodayOrYesterday)\<close>, so \<open>formatMomentDate\<close> returns \<open>undefined\<close> and no text.
\<close>

theorem formatMomentDate_other_day:
  assumes "toBoolean dateObj" and "toBoolean u" and "momentOfValue h dateObj = Inl m"
    and "\<not> momentIsSameDay h m (momentNow h)"
    and "\<not> momentIsSameDay h m (momentSubtractDay h (momentNow h))"
  shows "formatMomentDate h v dateObj pattern u = Inr Undefined"
  using assms by (simp add: formatMomentDate_flagged)

lemma momentOfValue_2020: "momentOfValue fixture (JNum (Fin 1600000000000)) = Inl 1600000000000"
  by (simp add: moment_simps Let_def)

theorem formatMomentDate_other_day_witness:
  "toBoolean (JNum (Fin 1600000000000)) \<and> toBoolean (JBool True)
   \<and> momentOfValue fixture (JNum (Fin 1600000000000)) = Inl 1600000000000
   \<and> \<not> momentIsSameDay fixture 1600000000000 (momentNow fixture)
   \<and> \<not> momentIsSameDay fixture 1600000000000 (momentSubtractDay fixture (momentNow fixture))
   \<and> formatMomentDate fixture fixtureVis (JNum (Fin 1600000000000)) (JStr ''dddd, DD.MM.'') (JBool True)
       = Inr Undefined
   \<and> formatMomentDate fixture fixtureVis (JNum (Fin 1600000000000)) (JStr ''dddd, DD.MM.'') (JBool False)
       = Inr (JStr ''[dddd, DD.MM.]'')"
proof -
  have a: "toBoolean (JNum (Fin 1600000000000))" "toBoolean (JBool True)"
    by (simp_all add: toBoolean_def)
  have b: "\<not> momentIsSameDay fixture 1600000000000 (momentNow fixture)"
    "\<not> momentIsSameDay fixture 1600000000000 (momentSubtractDay fixture (momentNow fixture))"
    by (simp_all add: fixture_fields sameLocalDay_def dayBefore_def localMs_def)
  have c: "formatMomentDate fixture fixtureVis (JNum (Fin 1600000000000)) (JStr ''dddd, DD.MM.'') (JBool False)
       = Inr (JStr ''[dddd, DD.MM.]'')"
    by (simp add: formatMomentDate_def defaultPattern_given moment_simps Let_def)
  from formatMomentDate_other_day [OF a momentOfValue_2020 b, of fixtureVis "JStr ''dddd, DD.MM.''"]
    a b c momentOfValue_2020
  show ?thesis by simp
qed

lemma formatMomentDate_today:
  "formatMomentDate fixture fixtureVis (JNum (Fin 1700000000000)) (JStr ''dddd, DD.MM.'') (JBool True)
     = Inr (JStr ''[Today, DD.MM.]'')"
  by (simp add: formatMomentDate_def defaultPattern_given moment_simps Let_def)

lemma formatMomentDate_yesterday:
  "formatMomentDate fixture fixtureVis (JNum (Fin 1699900000000)) (JStr ''dddd, DD.MM.'') (JBool True)
     = Inr (JStr ''[Yesterday, DD.MM.]'')"
  by (simp add: formatMomentDate_def defaultPattern_given moment_simps Let_def)

subsection \<open>OperatorPipeline\<close>

lemma min_max_step:
  "applyOperation h opts vals fmt \<lparr>op = ''min'', arg = a, formula = f\<rparr> value st =
     (andThen (parseFloat h value) (\<lambda>x.
      andThen (toNumber h a) (\<lambda>n. Inr (if numLess x n then a else JNum x))), st)"
  "applyOperation h opts vals fmt \<lparr>op = ''max'', arg = a, formula = f\<rparr> value st =
     (andThen (parseFloat h value) (\<lambda>x.
      andThen (toNumber h a) (\<lambda>n. Inr (if numGreater x n then a else JNum x))), st)"
  by (simp_all add: applyOperation_def Let_def)

text \<open>
  Claim C5, amended. For every current value whose float coercion gives a number (\<open>NaN\<close>
  included) and every numeric argument \<open>a\<close>, \<open>min\<close> gives \<open>a\<close> when
  \<open>parseFloat(value) < a\<close> and \<open>parseFloat(value)\<close> otherwise, and \<open>max\<close> gives \<open>a\<close>
  when \<open>parseFloat(value) > a\<close> and \<open>parseFloat(value)\<close> otherwise; the state is left
  alone. So \<open>min\<close> of \<open>5\<close> with argument \<open>10\<close> is \<open>10\<close>, and \<open>max\<close> of \<open>15\<close> with
  argument \<open>10\<close> is \<open>10\<close>. When the coercion throws, the operation throws what it threw.
\<close>

theorem min_max_clamp:
  "(parseFloat h value = Inr x \<longrightarrow>
      applyOperation h opts vals fmt \<lparr>op = ''min'', arg = JNum a, formula = f\<rparr> value st =
        (Inr (JNum (if numLess x a then a else x)), st)
      \<and> applyOperation h opts vals fmt \<lparr>op = ''max'', arg = JNum a, formula = f\<rparr> value st =
        (Inr (JNum (if numGreater x a then a else x)), st))
   \<and> (parseFloat h value = Inl e \<longrightarrow>
      applyOperation h opts vals fmt \<lparr>op = ''min'', arg = JNum a, formula = f\<rparr> value st = (Inl e, st)
      \<and> applyOperation h opts vals fmt \<lparr>op = ''max'', arg = JNum a, formula = f\<rparr> value st = (Inl e, st))
   \<and> applyOperation h opts vals fmt \<lparr>op = ''min'', arg = JNum (Fin 10), formula = f\<rparr> (JNum (Fin 5)) st =
     (Inr (JNum (Fin 10)), st)
   \<and> applyOperation h opts vals fmt \<lparr>op = ''max'', arg = JNum (Fin 10), formula = f\<rparr> (JNum (Fin 15)) st =
     (Inr (JNum (Fin 10)), st)"
  by (simp add: min_max_step numGreater_def)

theorem min_max_clamp_witness:
  "parseFloat fixture (JStr ''5'') = Inr (Fin 5)
   \<and> applyOperation fixture (fixtureOptions ''{a;min(10)}'') (states fixtureVis) ''{a;min(10)}''
        \<lparr>op = ''min'', arg = JNum (Fin 10), formula = None\<rparr> (JStr ''5'') fixtureEngine =
        (Inr (JNum (Fin 10)), fixtureEngine)
   \<and> parseFloat fixture (JObj [(''toString'', JNum (Fin 1))]) = Inl TypeError
   \<and> applyOperation fixture (fixtureOptions ''{a;min(10)}'') (states fixtureVis) ''{a;min(10)}''
        \<lparr>op = ''min'', arg = JNum (Fin 10), formula = None\<rparr> (JObj [(''toString'', JNum (Fin 1))])
        fixtureEngine = (Inl TypeError, fixtureEngine)"
proof -
  have five: "parseFloat fixture (JStr ''5'') = Inr (Fin 5)"
    by (simp add: parseFloat_def fixture_fields readInt_5)
  have thrown: "parseFloat fixture (JObj [(''toString'', JNum (Fin 1))]) = Inl TypeError"
    by (rule no_text)
  from min_max_clamp [of fixture "JStr ''5''" "Fin 5" "fixtureOptions ''{a;min(10)}''" "states fixtureVis"
      "''{a;min(10)}''" "Fin 10" None fixtureEngine TypeError]
    min_max_clamp [of fixture "JObj [(''toString'', JNum (Fin 1))]" "Fin 5" "fixtureOptions ''{a;min(10)}''"
      "states fixtureVis" "''{a;min(10)}''" "Fin 10" None fixtureEngine TypeError]
    five thrown
  show ?thesis by simp
qed

text \<open>The claim as it was written has \<open>min\<close> return for every current value. The object
  that \<open>JSON.parse('{"toString":1}')\<close> gives, which the operation \<open>json\<close> can leave as
  the current value, has no text: \<open>parseFloat\<close> throws a \<open>TypeError\<close>, and so do \<open>min\<close>
  and \<open>max\<close>.\<close>

theorem min_max_clamp_counterexample:
  "applyOperation fixture (fixtureOptions ''{a;min(10)}'') (states fixtureVis) ''{a;min(10)}''
     \<lparr>op = ''min'', arg = JNum (Fin 10), formula = None\<rparr> (JObj [(''toString'', JNum (Fin 1))])
     fixtureEngine = (Inl TypeError, fixtureEngine)
   \<and> applyOperation fixture (fixtureOptions ''{a;max(10)}'') (states fixtureVis) ''{a;max(10)}''
     \<lparr>op = ''max'', arg = JNum (Fin 10), formula = None\<rparr> (JObj [(''toString'', JNum (Fin 1))])
     fixtureEngine = (Inl TypeError, fixtureEngine)"
  by (simp add: min_max_step no_text)

lemma fixture_world [simp]:
  "errorLogger fixture w = Console" "warnLogger fixture w = Console"
  by (simp_all add: fixture_fields)

lemma unknown_operator_step:
  "op operation \<notin> set operatorNames \<Longrightarrow> warnLogger h (world st) = Console \<Longrightarrow>
     applyOperation h opts vals format operation value st =
       (Inr value, st\<lparr>console := console st @ [LogWarn (''Unknown operator: '' @ format)]\<rparr>)"
  by (simp add: operatorNames_def applyOperation_def Let_def logWarn_def logWith_def)

text \<open>
  Claim C9, amended. An operation whose kind is none of the operator names logs, through
  \<open>console.warn\<close> (the console's own, which no script has replaced), the warning
  \<open>Unknown operator: \<close> followed by the template as it stands at that moment, leaves the
  current value as it is, and the pipeline goes on with the next operation; after the last
  one the binding's token is replaced by what \<open>replace\<close> makes of the value. The template
  at that moment is the original one only for the first binding: the token of every
  binding handled before has already been replaced by its value.
\<close>

theorem unknown_operator_skipped:
  assumes "op operation \<notin> set operatorNames" and "warnLogger h (world st) = Console"
  shows "applyOperation h opts vals format operation value st =
           (Inr value, st\<lparr>console := console st @ [LogWarn (''Unknown operator: '' @ format)]\<rparr>)
       \<and> runOperations h opts vals format (operation # rest) value st =
           runOperations h opts vals format rest value
             (st\<lparr>console := console st @ [LogWarn (''Unknown operator: '' @ format)]\<rparr>)
       \<and> runOperations h opts vals format [operation] value st =
           (Inr value, st\<lparr>console := console st @ [LogWarn (''Unknown operator: '' @ format)]\<rparr>)
       \<and> (operations oid = Some [operation] \<and> resolveValue h (visOpts st) opts vals oid = Inr value \<longrightarrow>
            formatOids h opts vals (oid # oids) format st =
              (case replaceToken h format (token oid) value of
                 Inl e \<Rightarrow>
                   (Inl e, st\<lparr>console := console st @ [LogWarn (''Unknown operator: '' @ format)]\<rparr>)
               | Inr format1 \<Rightarrow>
                   formatOids h opts vals oids format1
                     (st\<lparr>console := console st @ [LogWarn (''Unknown operator: '' @ format)]\<rparr>)))"
  using assms by (simp add: unknown_operator_step split: sum.splits)

lemma fixture_states [simp]:
  "states fixtureVis ''a.val'' = JNum (Fin 7)" "states fixtureVis ''b.val'' = Undefined"
  by (simp_all add: fixtureVis_def)

lemma resolve_fixture:
  "resolveValue h fixtureVis (fixtureOptions t) (states fixtureVis) bindingA = Inr (JNum (Fin 7))"
  "resolveValue h fixtureVis (fixtureOptions t) (states fixtureVis) bindingFoo = Inr Undefined"
  "resolveValue h fixtureVis (fixtureOptions t) (states fixtureVis) bindingEval = Inr (JNum (Fin 7))"
  by (simp_all add: resolveValue_def getSpecialValues_def isNullish_def bindingA_def bindingFoo_def
        bindingEval_def)

lemma replaceToken_text:
  "\<not> isCallable value \<Longrightarrow> toStr h value = Inr t \<Longrightarrow>
     replaceToken h format tok value = Inr (replaceFirst format tok t)"
  by (simp add: replaceToken_def)

theorem unknown_operator_skipped_witness:
  "op \<lparr>op = ''foo'', arg = Undefined, formula = None\<rparr> \<notin> set operatorNames
   \<and> warnLogger fixture (world fixtureEngine) = Console
   \<and> applyOperation fixture (fixtureOptions ''{b;foo}'') (states fixtureVis) ''{b;foo}''
        \<lparr>op = ''foo'', arg = Undefined, formula = None\<rparr> (JStr ''x'') fixtureEngine =
        (Inr (JStr ''x''),
         fixtureEngine\<lparr>console := console fixtureEngine @ [LogWarn ''Unknown operator: {b;foo}'']\<rparr>)
   \<and> operations bindingFoo = Some [\<lparr>op = ''foo'', arg = Undefined, formula = None\<rparr>]
   \<and> resolveValue fixture (visOpts fixtureEngine) (fixtureOptions ''{b;foo}'') (states fixtureVis) bindingFoo
        = Inr Undefined
   \<and> formatOids fixture (fixtureOptions ''{b;foo}'') (states fixtureVis) [bindingFoo] ''{b;foo}''
        fixtureEngine =
        (Inr ''undefined'',
         fixtureEngine\<lparr>console := console fixtureEngine @ [LogWarn ''Unknown operator: {b;foo}'']\<rparr>)"
proof -
  have a: "op \<lparr>op = ''foo'', arg = Undefined, formula = None\<rparr> \<notin> set operatorNames"
    by (simp add: operatorNames_def)
  have b: "warnLogger fixture (world fixtureEngine) = Console" by simp
  have c: "operations bindingFoo = Some [\<lparr>op = ''foo'', arg = Undefined, formula = None\<rparr>]"
    by (simp add: bindingFoo_def)
  have d: "resolveValue fixture (visOpts fixtureEngine) (fixtureOptions ''{b;foo}'') (states fixtureVis)
      bindingFoo = Inr Undefined"
    by (simp add: resolve_fixture)
  have e: "replaceToken fixture ''{b;foo}'' (token bindingFoo) Undefined = Inr ''undefined''"
    by (simp add: replaceToken_text isCallable_def bindingFoo_def replaceFirst_def)
  from unknown_operator_skipped [OF a b, of "fixtureOptions ''{b;foo}''" "states fixtureVis" "''{b;foo}''"
      "JStr ''x''" "[]" bindingFoo "[]"]
    unknown_operator_skipped [OF a b, of "fixtureOptions ''{b;foo}''" "states fixtureVis" "''{b;foo}''"
      Undefined "[]" bindingFoo "[]"]
    a b c d e
  show ?thesis by simp
qed

lemma eval_caught:
  assumes "op operation = ''eval''"
    and "buildScript h (visOpts st) opts vals operation value = Inr (script, value1)"
    and "runScript h (world st) script = (Inl e, w)"
    and "errorLogger h w = Console"
    and "toStr h (exnValue e) = Inr t"
  shows "applyOperation h opts vals format operation value st =
       (Inr (JNum (Fin 0)),
        st\<lparr>console := console st @
             [LogError (''Error in eval[value]: '' @ format),
              LogError (''Error in eval[script]: '' @ script),
              LogError (''Error in eval[error]: '' @ t)],
           world := w\<rparr>)"
  using assms
  by (simp add: applyOperation_def Let_def runEval_def catchEval_def logError_def logWith_def)

lemma eval_escapes:
  assumes "op operation = ''eval''"
    and "buildScript h (visOpts st) opts vals operation value = Inr (script, value1)"
    and "runScript h (world st) script = (Inl e, w)"
    and "errorLogger h w = Console"
    and "toStr h (exnValue e) = Inl x"
  shows "applyOperation h opts vals format operation value st =
       (Inl x,
        st\<lparr>console := console st @
             [LogError (''Error in eval[value]: '' @ format),
              LogError (''Error in eval[script]: '' @ script)],
           world := w\<rparr>)"
  using assms
  by (simp add: applyOperation_def Let_def runEval_def catchEval_def logError_def logWith_def)

text \<open>A \<open>console.error\<close> that a script has replaced by something that throws lets
  nothing be caught either.\<close>

lemma eval_console_replaced:
  assumes "op operation = ''eval''"
    and "buildScript h (visOpts st) opts vals operation value = Inr (script, value1)"
    and "runScript h (world st) script = (Inl e, w)"
    and "errorLogger h w = Replaced (Some x)"
  shows "applyOperation h opts vals format operation value st = (Inl x, st\<lparr>world := w\<rparr>)"
  using assms
  by (simp add: applyOperation_def Let_def runEval_def catchEval_def logError_def logWith_def)

lemma formatBinding_list:
  assumes "extractBinding h parse st0 (optFormat opts) = (Inr (PList a), st)"
  shows "formatBinding h parse opts st0 =
     (case formatOids h opts (case optValues opts of Some f \<Rightarrow> f | None \<Rightarrow> states (visOpts st0))
             (heap st ! a) (optFormat opts) st of
        (Inl e, st2) \<Rightarrow> (Inl e, st2)
      | (Inr format, st2) \<Rightarrow> (Inr (unescape format), st2))"
  using assms by (simp add: formatBinding_def)

text \<open>
  Claim C2, where the code falls short. When the script of an \<open>eval\<close> operation fails to
  compile or throws, the \<open>catch\<close> block logs the template and the script and then prints
  the caught value with \<open>${e}\<close>. When that value has a text (every error object has one),
  a third error is logged with it, the current value becomes the number \<open>0\<close>, the pipeline
  goes on with the next operation, and \<open>formatBinding\<close> returns the template with the token
  replaced. When the caught value has no text (a symbol, an object without prototype),
  \<open>${e}\<close> throws a \<open>TypeError\<close> inside the \<open>catch\<close> block: two errors are logged, the
  value is not set to \<open>0\<close>, and the exception leaves \<open>formatBinding\<close>.
\<close>

theorem eval_failure_caught:
  assumes "op operation = ''eval''"
    and "buildScript h (visOpts st) opts vals operation value = Inr (script, value1)"
    and "runScript h (world st) script = (Inl e, w)"
    and "errorLogger h w = Console"
  shows "(toStr h (exnValue e) = Inr t \<longrightarrow>
           applyOperation h opts vals format operation value st =
             (Inr (JNum (Fin 0)),
              st\<lparr>console := console st @
                   [LogError (''Error in eval[value]: '' @ format),
                    LogError (''Error in eval[script]: '' @ script),
                    LogError (''Error in eval[error]: '' @ t)],
                 world := w\<rparr>)
           \<and> runOperations h opts vals format (operation # rest) value st =
               runOperations h opts vals format rest (JNum (Fin 0))
                 (st\<lparr>console := console st @
                      [LogError (''Error in eval[value]: '' @ format),
                       LogError (''Error in eval[script]: '' @ script),
                       LogError (''Error in eval[error]: '' @ t)],
                    world := w\<rparr>)
           \<and> (operations oid = Some [operation]
                \<and> resolveValue h (visOpts st) opts vals oid = Inr value
                \<and> extractBinding h parse st0 (optFormat opts) = (Inr (PList a), st)
                \<and> heap st ! a = [oid]
                \<and> vals = (case optValues opts of Some g \<Rightarrow> g | None \<Rightarrow> states (visOpts st0))
                \<and> format = optFormat opts \<longrightarrow>
                formatBinding h parse opts st0 =
                  (Inr (unescape (replaceFirst format (token oid) ''0'')),
                   st\<lparr>console := console st @
                        [LogError (''Error in eval[value]: '' @ format),
                         LogError (''Error in eval[script]: '' @ script),
                         LogError (''Error in eval[error]: '' @ t)],
                      world := w\<rparr>)))
       \<and> (toStr h (exnValue e) = Inl x \<longrightarrow>
           applyOperation h opts vals format operation value st =
             (Inl x,
              st\<lparr>console := console st @
                   [LogError (''Error in eval[value]: '' @ format),
                    LogError (''Error in eval[script]: '' @ script)],
                 world := w\<rparr>)
           \<and> runOperations h opts vals format (operation # rest) value st =
             (Inl x,
              st\<lparr>console := console st @
                   [LogError (''Error in eval[value]: '' @ format),
                    LogError (''Error in eval[script]: '' @ script)],
                 world := w\<rparr>)
           \<and> (operations oid = Some (operation # rest)
                \<and> resolveValue h (visOpts st) opts vals oid = Inr value
                \<and> extractBinding h parse st0 (optFormat opts) = (Inr (PList a), st)
                \<and> heap st ! a = oid # oids
                \<and> vals = (case optValues opts of Some g \<Rightarrow> g | None \<Rightarrow> states (visOpts st0))
                \<and> format = optFormat opts \<longrightarrow>
                formatBinding h parse opts st0 =
                  (Inl x,
                   st\<lparr>console := console st @
                        [LogError (''Error in eval[value]: '' @ format),
                         LogError (''Error in eval[script]: '' @ script)],
                      world := w\<rparr>)))"
proof (intro conjI impI)
  assume t: "toStr h (exnValue e) = Inr t"
  note step = eval_caught [OF assms t]
  show "applyOperation h opts vals format operation value st =
             (Inr (JNum (Fin 0)),
              st\<lparr>console := console st @
                   [LogError (''Error in eval[value]: '' @ format),
                    LogError (''Error in eval[script]: '' @ script),
                    LogError (''Error in eval[error]: '' @ t)],
                 world := w\<rparr>)"
    by (rule step)
  show "runOperations h opts vals format (operation # rest) value st =
               runOperations h opts vals format rest (JNum (Fin 0))
                 (st\<lparr>console := console st @
                      [LogError (''Error in eval[value]: '' @ format),
                       LogError (''Error in eval[script]: '' @ script),
                       LogError (''Error in eval[error]: '' @ t)],
                    world := w\<rparr>)"
    by (simp add: step)
  assume b: "operations oid = Some [operation]
                \<and> resolveValue h (visOpts st) opts vals oid = Inr value
                \<and> extractBinding h parse st0 (optFormat opts) = (Inr (PList a), st)
                \<and> heap st ! a = [oid]
                \<and> vals = (case optValues opts of Some g \<Rightarrow> g | None \<Rightarrow> states (visOpts st0))
                \<and> format = optFormat opts"
  from b have b1: "operations oid = Some [operation]"
    and b2: "resolveValue h (visOpts st) opts vals oid = Inr value" by blast+
  have r: "replaceToken h format (token oid) (JNum (Fin 0)) = Inr (replaceFirst format (token oid) ''0'')"
    by (rule replaceToken_text) (simp add: isCallable_def, rule toStr_zero)
  have "formatOids h opts vals [oid] format st =
      (Inr (replaceFirst format (token oid) ''0''),
       st\<lparr>console := console st @
            [LogError (''Error in eval[value]: '' @ format),
             LogError (''Error in eval[script]: '' @ script),
             LogError (''Error in eval[error]: '' @ t)],
          world := w\<rparr>)"
    using b1 b2 by (simp add: step r)
  with b show "formatBinding h parse opts st0 =
                  (Inr (unescape (replaceFirst format (token oid) ''0'')),
                   st\<lparr>console := console st @
                        [LogError (''Error in eval[value]: '' @ format),
                         LogError (''Error in eval[script]: '' @ script),
                         LogError (''Error in eval[error]: '' @ t)],
                      world := w\<rparr>)"
    by (simp add: formatBinding_list)
next
  assume x: "toStr h (exnValue e) = Inl x"
  note step = eval_escapes [OF assms x]
  show "applyOperation h opts vals format operation value st =
             (Inl x,
              st\<lparr>console := console st @
                   [LogError (''Error in eval[value]: '' @ format),
                    LogError (''Error in eval[script]: '' @ script)],
                 world := w\<rparr>)"
    by (rule step)
  show "runOperations h opts vals format (operation # rest) value st =
             (Inl x,
              st\<lparr>console := console st @
                   [LogError (''Error in eval[value]: '' @ format),
                    LogError (''Error in eval[script]: '' @ script)],
                 world := w\<rparr>)"
    by (simp add: step)
  assume b: "operations oid = Some (operation # rest)
                \<and> resolveValue h (visOpts st) opts vals oid = Inr value
                \<and> extractBinding h parse st0 (optFormat opts) = (Inr (PList a), st)
                \<and> heap st ! a = oid # oids
                \<and> vals = (case optValues opts of Some g \<Rightarrow> g | None \<Rightarrow> states (visOpts st0))
                \<and> format = optFormat opts"
  from b have b1: "operations oid = Some (operation # rest)"
    and b2: "resolveValue h (visOpts st) opts vals oid = Inr value" by blast+
  have "formatOids h opts vals (oid # oids) format st =
      (Inl x,
       st\<lparr>console := console st @
            [LogError (''Error in eval[value]: '' @ format),
             LogError (''Error in eval[script]: '' @ script)],
          world := w\<rparr>)"
    using b1 b2 by (simp add: step)
  with b show "formatBinding h parse opts st0 =
                  (Inl x,
                   st\<lparr>console := console st @
                        [LogError (''Error in eval[value]: '' @ format),
                         LogError (''Error in eval[script]: '' @ script)],
                      world := w\<rparr>)"
    by (simp add: formatBinding_list)
qed

lemma fixture_options [simp]:
  "optFormat (fixtureOptions t) = t" "optValues (fixtureOptions t) = None"
  "view (fixtureOptions t) = JStr ''main''" "wid (fixtureOptions t) = JStr ''w00001''"
  by (simp_all add: fixtureOptions_def)

lemma fixture_engine_fields [simp]:
  "bindingsCache fixtureEngine = Map.empty" "heap fixtureEngine = []"
  "parserCalls fixtureEngine = []" "console fixtureEngine = []" "world fixtureEngine = ()"
  by (simp_all add: fixtureEngine_def)

lemma fixture_editMode [simp]: "\<not> editMode fixtureVis"
  by (simp add: fixtureVis_def)

lemma fixture_script:
  "buildScript fixture fixtureVis (fixtureOptions t) (states fixtureVis) fixtureEval value =
     Inr (''const x = 7;return x +;'', JNum (Fin 7))"
  "buildScript fixture fixtureVis (fixtureOptions t) (states fixtureVis) fixtureThrow value =
     Inr (''const x = 7;return eval(`throw Symbol()`);'', JNum (Fin 7))"
  by (simp_all add: buildScript_def fixtureEval_def fixtureThrow_def evalItems_def isNullish_def
        getProp_def toBoolean_def getSpecialValues_def stateOfArgument_def evalDeclaration_def
        includesStr_def number_simps digit_simps dquote_def backslash_def)

lemma fixture_outcome:
  "runScript fixture () ''const x = 7;return x +;'' = (Inl SyntaxError, ())"
  "runScript fixture () ''const x = 7;return eval(`throw Symbol()`);''
     = (Inl (Thrown (JForeign FSymbol ''Symbol()'')), ())"
  by (simp_all add: fixture_fields failingScript_def includesStr_def)

lemma caught_text:
  "toStr fixture (exnValue SyntaxError) = Inr ''SyntaxError''"
  "toStr h (exnValue (Thrown (JForeign FSymbol n))) = Inl TypeError"
  by (simp_all add: exnValue_def fixture_fields printName_def primToStr_def)

lemma extract_eval_binding:
  "extractBinding fixture fixtureParser fixtureEngine ''v={a;eval}'' =
     (Inr (PList 0),
      fixtureEngine
        \<lparr>heap := [[bindingEval], deepCloneBindings fixture [bindingEval]],
         parserCalls := [''v={a;eval}''],
         bindingsCache := [''v={a;eval}'' \<mapsto> 1]\<rparr>)"
  "extractBinding fixture fixtureParser fixtureEngine ''v={x:a;eval(`throw Symbol()`)}'' =
     (Inr (PList 0),
      fixtureEngine
        \<lparr>heap := [[bindingThrow], deepCloneBindings fixture [bindingThrow]],
         parserCalls := [''v={x:a;eval(`throw Symbol()`)}''],
         bindingsCache := [''v={x:a;eval(`throw Symbol()`)}'' \<mapsto> 1]\<rparr>)"
  by (simp_all add: extractBinding_def cacheGet_def objectPrototypeMethods_def fixtureParser_def
        alloc_def fixtureEngine_def)

theorem eval_failure_caught_witness:
  "op fixtureThrow = ''eval''
   \<and> runScript fixture () ''const x = 7;return eval(`throw Symbol()`);''
       = (Inl (Thrown (JForeign FSymbol ''Symbol()'')), ())
   \<and> errorLogger fixture () = Console
   \<and> toStr fixture (exnValue (Thrown (JForeign FSymbol ''Symbol()''))) = Inl TypeError
   \<and> formatBinding fixture fixtureParser (fixtureOptions ''v={x:a;eval(`throw Symbol()`)}'') fixtureEngine =
       (Inl TypeError,
        fixtureEngine
          \<lparr>heap := [[bindingThrow], deepCloneBindings fixture [bindingThrow]],
           parserCalls := [''v={x:a;eval(`throw Symbol()`)}''],
           bindingsCache := [''v={x:a;eval(`throw Symbol()`)}'' \<mapsto> 1],
           console := [LogError ''Error in eval[value]: v={x:a;eval(`throw Symbol()`)}'',
                       LogError ''Error in eval[script]: const x = 7;return eval(`throw Symbol()`);'']\<rparr>)
   \<and> op fixtureEval = ''eval''
   \<and> runScript fixture () ''const x = 7;return x +;'' = (Inl SyntaxError, ())
   \<and> toStr fixture (exnValue SyntaxError) = Inr ''SyntaxError''
   \<and> formatBinding fixture fixtureParser (fixtureOptions ''v={a;eval}'') fixtureEngine =
       (Inr ''v=0'',
        fixtureEngine
          \<lparr>heap := [[bindingEval], deepCloneBindings fixture [bindingEval]],
           parserCalls := [''v={a;eval}''],
           bindingsCache := [''v={a;eval}'' \<mapsto> 1],
           console := [LogError ''Error in eval[value]: v={a;eval}'',
                       LogError ''Error in eval[script]: const x = 7;return x +;'',
                       LogError ''Error in eval[error]: SyntaxError'']\<rparr>)"
proof -
  let ?t = "''v={x:a;eval(`throw Symbol()`)}''"
  let ?stT = "fixtureEngine
        \<lparr>heap := [[bindingThrow], deepCloneBindings fixture [bindingThrow]],
         parserCalls := [?t], bindingsCache := [?t \<mapsto> 1]\<rparr>"
  let ?stE = "fixtureEngine
        \<lparr>heap := [[bindingEval], deepCloneBindings fixture [bindingEval]],
         parserCalls := [''v={a;eval}''], bindingsCache := [''v={a;eval}'' \<mapsto> 1]\<rparr>"
  have opT: "op fixtureThrow = ''eval''" and opE: "op fixtureEval = ''eval''"
    by (simp_all add: fixtureThrow_def fixtureEval_def)
  have scriptT: "buildScript fixture (visOpts ?stT) (fixtureOptions ?t) (states fixtureVis) fixtureThrow
      (JNum (Fin 7)) = Inr (''const x = 7;return eval(`throw Symbol()`);'', JNum (Fin 7))"
    by (simp add: fixture_script)
  have scriptE: "buildScript fixture (visOpts ?stE) (fixtureOptions ''v={a;eval}'') (states fixtureVis)
      fixtureEval (JNum (Fin 7)) = Inr (''const x = 7;return x +;'', JNum (Fin 7))"
    by (simp add: fixture_script)
  have runT: "runScript fixture (world ?stT) ''const x = 7;return eval(`throw Symbol()`);''
      = (Inl (Thrown (JForeign FSymbol ''Symbol()'')), ())"
    by (simp add: fixture_outcome)
  have runE: "runScript fixture (world ?stE) ''const x = 7;return x +;'' = (Inl SyntaxError, ())"
    by (simp add: fixture_outcome)
  have log: "errorLogger fixture () = Console" by simp
  have hypT: "operations bindingThrow = Some (fixtureThrow # [])
      \<and> resolveValue fixture (visOpts ?stT) (fixtureOptions ?t) (states fixtureVis) bindingThrow
          = Inr (JNum (Fin 7))
      \<and> extractBinding fixture fixtureParser fixtureEngine (optFormat (fixtureOptions ?t))
          = (Inr (PList 0), ?stT)
      \<and> heap ?stT ! 0 = bindingThrow # []
      \<and> states fixtureVis
          = (case optValues (fixtureOptions ?t) of Some g \<Rightarrow> g | None \<Rightarrow> states (visOpts fixtureEngine))
      \<and> ?t = optFormat (fixtureOptions ?t)"
    by (simp add: extract_eval_binding resolveValue_def getSpecialValues_def isNullish_def
          bindingThrow_def)
  have hypE: "operations bindingEval = Some [fixtureEval]
      \<and> resolveValue fixture (visOpts ?stE) (fixtureOptions ''v={a;eval}'') (states fixtureVis) bindingEval
          = Inr (JNum (Fin 7))
      \<and> extractBinding fixture fixtureParser fixtureEngine (optFormat (fixtureOptions ''v={a;eval}''))
          = (Inr (PList 0), ?stE)
      \<and> heap ?stE ! 0 = [bindingEval]
      \<and> states fixtureVis
          = (case optValues (fixtureOptions ''v={a;eval}'') of Some g \<Rightarrow> g
             | None \<Rightarrow> states (visOpts fixtureEngine))
      \<and> ''v={a;eval}'' = optFormat (fixtureOptions ''v={a;eval}'')"
    by (simp add: extract_eval_binding resolveValue_def getSpecialValues_def isNullish_def
          bindingEval_def)
  have tokE: "unescape (replaceFirst ''v={a;eval}'' (token bindingEval) ''0'') = ''v=0''"
    by (simp add: bindingEval_def replaceFirst_def unescape_def)
  from eval_failure_caught [OF opT scriptT runT log,
      where x = TypeError and oid = bindingThrow and rest = "[]" and oids = "[]"
        and parse = fixtureParser and ?st0.0 = fixtureEngine and a = 0 and format = ?t]
    caught_text hypT
  have bad: "formatBinding fixture fixtureParser (fixtureOptions ?t) fixtureEngine =
       (Inl TypeError,
        ?stT\<lparr>console := console ?stT @
             [LogError (''Error in eval[value]: '' @ ?t),
              LogError (''Error in eval[script]: '' @ ''const x = 7;return eval(`throw Symbol()`);'')],
           world := ()\<rparr>)"
    by blast
  from eval_failure_caught [OF opE scriptE runE log,
      where t = "''SyntaxError''" and oid = bindingEval
        and parse = fixtureParser and ?st0.0 = fixtureEngine and a = 0 and format = "''v={a;eval}''"]
    caught_text hypE
  have good: "formatBinding fixture fixtureParser (fixtureOptions ''v={a;eval}'') fixtureEngine =
       (Inr (unescape (replaceFirst ''v={a;eval}'' (token bindingEval) ''0'')),
        ?stE\<lparr>console := console ?stE @
             [LogError (''Error in eval[value]: '' @ ''v={a;eval}''),
              LogError (''Error in eval[script]: '' @ ''const x = 7;return x +;''),
              LogError (''Error in eval[error]: '' @ ''SyntaxError'')],
           world := ()\<rparr>)"
    by blast
  show ?thesis
    by (simp add: opT opE fixture_outcome caught_text bad good tokE)
qed

subsection \<open>FormattingEngine\<close>

lemma extract_two_bindings:
  "extractBinding fixture fixtureParser fixtureEngine ''{a}{b;foo}'' =
     (Inr (PList 0),
      fixtureEngine
        \<lparr>heap := [[bindingA, bindingFoo], deepCloneBindings fixture [bindingA, bindingFoo]],
         parserCalls := [''{a}{b;foo}''],
         bindingsCache := [''{a}{b;foo}'' \<mapsto> 1]\<rparr>)"
  by (simp add: extractBinding_def cacheGet_def objectPrototypeMethods_def fixtureParser_def
        alloc_def fixtureEngine_def)

lemma format_two_bindings:
  "visOpts st = fixtureVis \<Longrightarrow>
   formatOids fixture (fixtureOptions ''{a}{b;foo}'') (states fixtureVis) [bindingA, bindingFoo]
     ''{a}{b;foo}'' st =
   (Inr ''7undefined'', st\<lparr>console := console st @ [LogWarn ''Unknown operator: 7{b;foo}'']\<rparr>)"
proof -
  assume v: "visOpts st = fixtureVis"
  have foo: "op \<lparr>op = ''foo'', arg = Undefined, formula = None\<rparr> \<notin> set operatorNames"
    by (simp add: operatorNames_def)
  have warn: "warnLogger fixture (world st) = Console" by simp
  have a: "replaceToken fixture ''{a}{b;foo}'' (token bindingA) (JNum (Fin 7)) = Inr ''7{b;foo}''"
    by (simp add: replaceToken_def isCallable_def bindingA_def replaceFirst_def number_simps digit_simps)
  have b: "replaceToken fixture ''7{b;foo}'' (token bindingFoo) Undefined = Inr ''7undefined''"
    by (simp add: replaceToken_def isCallable_def bindingFoo_def replaceFirst_def)
  have ops: "operations bindingA = None"
    "operations bindingFoo = Some [\<lparr>op = ''foo'', arg = Undefined, formula = None\<rparr>]"
    by (simp_all add: bindingA_def bindingFoo_def)
  show ?thesis
    by (simp add: v resolve_fixture ops a b unknown_operator_step [OF foo warn])
qed

text \<open>The claim as it was written has the warning identify the original template, here
  \<open>{a}{b;foo}\<close>; the second binding's warning carries the template with \<open>{a}\<close> already
  replaced. And it has a warning logged whatever the page: where a script has replaced
  \<open>console.warn\<close>, the console records nothing.\<close>

theorem unknown_operator_skipped_counterexample:
  "fst (formatBinding fixture fixtureParser (fixtureOptions ''{a}{b;foo}'') fixtureEngine)
     = Inr ''7undefined''
   \<and> console (snd (formatBinding fixture fixtureParser (fixtureOptions ''{a}{b;foo}'') fixtureEngine))
     = [LogWarn ''Unknown operator: 7{b;foo}'']
   \<and> ''7{b;foo}'' \<noteq> ''{a}{b;foo}''
   \<and> applyOperation silentFixture (fixtureOptions ''{b;foo}'') (states fixtureVis) ''{b;foo}''
        \<lparr>op = ''foo'', arg = Undefined, formula = None\<rparr> (JStr ''x'') fixtureEngine
     = (Inr (JStr ''x''), fixtureEngine)"
  by (simp add: formatBinding_def Let_def extract_two_bindings format_two_bindings unescape_def
        applyOperation_def operatorNames_def logWarn_def logWith_def silentFixture_def silent_def
        del: formatOids.simps)

lemma extractBinding_empty: "extractBinding h parse st [] = (Inr PNull, st)"
  by (simp add: extractBinding_def)

lemma extractBinding_parse:
  assumes "format \<noteq> []"
    and "editMode (visOpts st) \<or> cacheGet (bindingsCache st) format = Missing"
  shows "extractBinding h parse st format =
     (case parse format of
        None \<Rightarrow> (Inr PNull, st\<lparr>parserCalls := parserCalls st @ [format]\<rparr>)
      | Some bs \<Rightarrow>
          (Inr (PList (length (heap st))),
           if editMode (visOpts st)
           then st\<lparr>parserCalls := parserCalls st @ [format], heap := heap st @ [bs]\<rparr>
           else st\<lparr>parserCalls := parserCalls st @ [format],
                   heap := heap st @ [bs, deepCloneBindings h bs],
                   bindingsCache := (bindingsCache st)(format \<mapsto> Suc (length (heap st)))\<rparr>))"
  using assms by (auto simp: extractBinding_def alloc_def Let_def split: option.splits)

lemma extractBinding_hit:
  assumes "format \<noteq> []" and "\<not> editMode (visOpts st)" and "bindingsCache st format = Some c"
  shows "extractBinding h parse st format =
     (Inr (PList (length (heap st))), st\<lparr>heap := heap st @ [deepCloneBindings h (heap st ! c)]\<rparr>)"
  using assms by (simp add: extractBinding_def cacheGet_def alloc_def)

lemma formatBinding_empty_template:
  "formatBinding h parse (opts\<lparr>optFormat := []\<rparr>) st = (Inl TypeError, st)"
  by (simp add: formatBinding_def extractBinding_empty)

lemma formatBinding_null:
  assumes "optFormat opts \<noteq> []" and "parse (optFormat opts) = None"
    and "editMode (visOpts st) \<or> cacheGet (bindingsCache st) (optFormat opts) = Missing"
  shows "formatBinding h parse opts st =
     (Inl TypeError, st\<lparr>parserCalls := parserCalls st @ [optFormat opts]\<rparr>)"
  using assms by (simp add: formatBinding_def extractBinding_parse)

lemma formatBinding_no_oids:
  assumes "optFormat opts \<noteq> []" and "parse (optFormat opts) = Some []"
    and "editMode (visOpts st) \<or> cacheGet (bindingsCache st) (optFormat opts) = Missing"
  shows "fst (formatBinding h parse opts st) = Inr (unescape (optFormat opts))"
  using assms by (auto simp: formatBinding_def extractBinding_parse nth_append)

text \<open>
  Claim C1, where the code falls short. For a template without bindings the parser's own
  answer decides. When it answers with the empty list, \<open>formatBinding\<close> returns the template
  with every \<open>{{\<close> and \<open>}}\<close> made single. When it answers \<open>null\<close>, and for the empty
  template, which \<open>extractBinding\<close> answers with \<open>null\<close> itself, the loop
  \<open>for (const oid of oids)\<close> throws a \<open>TypeError\<close>, which leaves \<open>formatBinding\<close>.
\<close>

theorem formatBinding_without_bindings:
  "formatBinding h parse (opts\<lparr>optFormat := []\<rparr>) st = (Inl TypeError, st)
   \<and> (optFormat opts \<noteq> [] \<and> parse (optFormat opts) = None
        \<and> (editMode (visOpts st) \<or> cacheGet (bindingsCache st) (optFormat opts) = Missing) \<longrightarrow>
        formatBinding h parse opts st =
          (Inl TypeError, st\<lparr>parserCalls := parserCalls st @ [optFormat opts]\<rparr>))
   \<and> (optFormat opts \<noteq> [] \<and> parse (optFormat opts) = Some []
        \<and> (editMode (visOpts st) \<or> cacheGet (bindingsCache st) (optFormat opts) = Missing) \<longrightarrow>
        fst (formatBinding h parse opts st) = Inr (unescape (optFormat opts)))"
  by (simp add: formatBinding_empty_template formatBinding_null formatBinding_no_oids)

lemma cacheGet_fixture:
  "cacheGet Map.empty ''{{literal}}'' = Missing"
  "cacheGet Map.empty ''{a;pow(x)}'' = Missing"
  "cacheGet Map.empty ''plain text'' = Missing"
  by (simp_all add: cacheGet_def objectPrototypeMethods_def)

lemma fixtureParser_values:
  "fixtureParser ''{{literal}}'' = None" "fixtureParser ''plain text'' = None"
  "fixtureParser ''{a;pow(x)}'' = Some [bindingPow]"
  by (simp_all add: fixtureParser_def)

theorem formatBinding_without_bindings_witness:
  "optFormat (fixtureOptions ''{{literal}}'') \<noteq> []
   \<and> fixtureParser (optFormat (fixtureOptions ''{{literal}}'')) = None
   \<and> cacheGet (bindingsCache fixtureEngine) (optFormat (fixtureOptions ''{{literal}}'')) = Missing
   \<and> formatBinding fixture fixtureParser (fixtureOptions ''{{literal}}'') fixtureEngine =
        (Inl TypeError, fixtureEngine\<lparr>parserCalls := [''{{literal}}'']\<rparr>)
   \<and> (\<lambda>s. Some []) (optFormat (fixtureOptions ''{{literal}}'')) = Some ([] :: VisBinding list)
   \<and> fst (formatBinding fixture (\<lambda>s. Some []) (fixtureOptions ''{{literal}}'') fixtureEngine) =
        Inr ''{literal}''"
  using formatBinding_without_bindings [of fixture fixtureParser "fixtureOptions ''{{literal}}''" fixtureEngine]
    formatBinding_without_bindings [of fixture "\<lambda>s. Some []" "fixtureOptions ''{{literal}}''" fixtureEngine]
  by (simp add: cacheGet_fixture fixtureParser_values unescape_def)

subsection \<open>BindingCache\<close>

lemma extractTwice_cached:
  assumes "\<not> editMode (visOpts st)" and "format \<noteq> []"
    and "cacheGet (bindingsCache st) format = Missing" and "parse format = Some bs"
  shows "extractTwice h parse st format bs' =
     ((Inr (PList (length (heap st))),
       st\<lparr>parserCalls := parserCalls st @ [format],
          heap := heap st @ [bs, deepCloneBindings h bs],
          bindingsCache := (bindingsCache st)(format \<mapsto> Suc (length (heap st)))\<rparr>),
      (Inr (PList (length (heap st) + 2)),
       st\<lparr>parserCalls := parserCalls st @ [format],
          heap := heap st @ [bs', deepCloneBindings h bs, deepCloneBindings h (deepCloneBindings h bs)],
          bindingsCache := (bindingsCache st)(format \<mapsto> Suc (length (heap st)))\<rparr>))"
proof -
  let ?st1 = "st\<lparr>parserCalls := parserCalls st @ [format],
          heap := heap st @ [bs, deepCloneBindings h bs],
          bindingsCache := (bindingsCache st)(format \<mapsto> Suc (length (heap st)))\<rparr>"
  have first: "extractBinding h parse st format = (Inr (PList (length (heap st))), ?st1)"
    using assms by (simp add: extractBinding_parse)
  let ?m = "mutate (length (heap st)) bs' ?st1"
  have m: "?m = st\<lparr>parserCalls := parserCalls st @ [format],
          heap := heap st @ [bs', deepCloneBindings h bs],
          bindingsCache := (bindingsCache st)(format \<mapsto> Suc (length (heap st)))\<rparr>"
    by (simp add: mutate_def list_update_append)
  have second: "extractBinding h parse ?m format =
      (Inr (PList (length (heap ?m))), ?m\<lparr>heap := heap ?m @ [deepCloneBindings h (heap ?m ! Suc (length (heap st)))]\<rparr>)"
    using assms by (intro extractBinding_hit) (simp_all add: mutate_def)
  have "heap ?m ! Suc (length (heap st)) = deepCloneBindings h bs"
    by (simp add: m nth_append)
  with second m have "extractBinding h parse ?m format =
      (Inr (PList (length (heap st) + 2)),
       st\<lparr>parserCalls := parserCalls st @ [format],
          heap := heap st @ [bs', deepCloneBindings h bs, deepCloneBindings h (deepCloneBindings h bs)],
          bindingsCache := (bindingsCache st)(format \<mapsto> Suc (length (heap st)))\<rparr>)"
    by simp
  with first show ?thesis by (simp add: extractTwice_def Let_def)
qed

lemma extractTwice_null:
  assumes "\<not> editMode (visOpts st)" and "format \<noteq> []"
    and "cacheGet (bindingsCache st) format = Missing" and "parse format = None"
  shows "extractTwice h parse st format bs' =
     ((Inr PNull, st\<lparr>parserCalls := parserCalls st @ [format]\<rparr>),
      (Inr PNull, st\<lparr>parserCalls := parserCalls st @ [format, format]\<rparr>))"
  using assms by (simp add: extractTwice_def Let_def extractBinding_parse)

lemma extractBinding_edit_mode:
  assumes "editMode (visOpts st)" and "format \<noteq> []"
  shows "parserCalls (snd (extractBinding h parse st format)) = parserCalls st @ [format]"
    and "bindingsCache (snd (extractBinding h parse st format)) = bindingsCache st"
    and "extractBinding h parse (st\<lparr>bindingsCache := c\<rparr>) format =
           (fst (extractBinding h parse st format),
            (snd (extractBinding h parse st format))\<lparr>bindingsCache := c\<rparr>)"
  using assms by (simp_all add: extractBinding_parse split: option.splits)

text \<open>
  Claim C3, amended. In edit mode \<open>extractBinding\<close> neither reads nor writes
  \<open>bindingsCache\<close> (its result is the same whatever the cache holds, and the cache is left
  as it was), and the parser is invoked on every call with a non-empty template. Out of
  edit mode, two calls in a row with the same non-empty template, one that is not cached
  yet, is not the name of a member every object inherits, and for which the parser gives a
  binding list, invoke the parser once. The first call hands out the parser's list and
  stores a deep copy of it; the second hands out a deep copy of the stored one. The stored
  copy stays what it was when the caller overwrites either list it was handed, and the
  lists stored for other templates stay as well. A template for which the parser gives
  \<open>null\<close> is not cached and is parsed again by every call; the empty template is never
  parsed.
\<close>

theorem extractBinding_caching:
  "(editMode (visOpts st) \<and> format \<noteq> [] \<longrightarrow>
      parserCalls (snd (extractBinding h parse st format)) = parserCalls st @ [format]
      \<and> bindingsCache (snd (extractBinding h parse st format)) = bindingsCache st
      \<and> extractBinding h parse (st\<lparr>bindingsCache := c\<rparr>) format =
           (fst (extractBinding h parse st format),
            (snd (extractBinding h parse st format))\<lparr>bindingsCache := c\<rparr>))
   \<and> (\<not> editMode (visOpts st) \<and> format \<noteq> [] \<and> cacheGet (bindingsCache st) format = Missing
       \<and> parse format = Some bs \<and> cacheWellFormed st \<longrightarrow>
      (\<exists>st1 st2.
         extractTwice h parse st format bs' =
           ((Inr (PList (length (heap st))), st1), (Inr (PList (length (heap st) + 2)), st2))
         \<and> parserCalls st2 = parserCalls st @ [format]
         \<and> heap st1 ! length (heap st) = bs
         \<and> bindingsCache st1 format = Some (length (heap st) + 1)
         \<and> bindingsCache st2 format = Some (length (heap st) + 1)
         \<and> heap st1 ! (length (heap st) + 1) = deepCloneBindings h bs
         \<and> heap st2 ! (length (heap st) + 1) = deepCloneBindings h bs
         \<and> heap st2 ! (length (heap st) + 2) = deepCloneBindings h (deepCloneBindings h bs)
         \<and> heap (mutate (length (heap st) + 2) bs'' st2) ! (length (heap st) + 1)
             = deepCloneBindings h bs
         \<and> (\<forall>k a. bindingsCache st k = Some a \<longrightarrow> heap st2 ! a = heap st ! a)
         \<and> cacheWellFormed st2))
   \<and> (\<not> editMode (visOpts st) \<and> format \<noteq> [] \<and> cacheGet (bindingsCache st) format = Missing
       \<and> parse format = None \<longrightarrow>
      extractTwice h parse st format bs' =
        ((Inr PNull, st\<lparr>parserCalls := parserCalls st @ [format]\<rparr>),
         (Inr PNull, st\<lparr>parserCalls := parserCalls st @ [format, format]\<rparr>)))
   \<and> extractBinding h parse st [] = (Inr PNull, st)"
proof -
  have cached: "\<exists>st1 st2.
         extractTwice h parse st format bs' =
           ((Inr (PList (length (heap st))), st1), (Inr (PList (length (heap st) + 2)), st2))
         \<and> parserCalls st2 = parserCalls st @ [format]
         \<and> heap st1 ! length (heap st) = bs
         \<and> bindingsCache st1 format = Some (length (heap st) + 1)
         \<and> bindingsCache st2 format = Some (length (heap st) + 1)
         \<and> heap st1 ! (length (heap st) + 1) = deepCloneBindings h bs
         \<and> heap st2 ! (length (heap st) + 1) = deepCloneBindings h bs
         \<and> heap st2 ! (length (heap st) + 2) = deepCloneBindings h (deepCloneBindings h bs)
         \<and> heap (mutate (length (heap st) + 2) bs'' st2) ! (length (heap st) + 1)
             = deepCloneBindings h bs
         \<and> (\<forall>k a. bindingsCache st k = Some a \<longrightarrow> heap st2 ! a = heap st ! a)
         \<and> cacheWellFormed st2"
    if a: "\<not> editMode (visOpts st)" "format \<noteq> []" "cacheGet (bindingsCache st) format = Missing"
      "parse format = Some bs" and wf: "cacheWellFormed st"
  proof -
    have lt: "a < length (heap st)" if "bindingsCache st k = Some a" for k a
      using wf that by (auto simp: cacheWellFormed_def)
    have eq: "extractTwice h parse st format bs' =
     ((Inr (PList (length (heap st))),
       st\<lparr>parserCalls := parserCalls st @ [format],
          heap := heap st @ [bs, deepCloneBindings h bs],
          bindingsCache := (bindingsCache st)(format \<mapsto> Suc (length (heap st)))\<rparr>),
      (Inr (PList (length (heap st) + 2)),
       st\<lparr>parserCalls := parserCalls st @ [format],
          heap := heap st @ [bs', deepCloneBindings h bs, deepCloneBindings h (deepCloneBindings h bs)],
          bindingsCache := (bindingsCache st)(format \<mapsto> Suc (length (heap st)))\<rparr>))"
      using a by (rule extractTwice_cached)
    show ?thesis
      by (auto simp: eq nth_append mutate_def cacheWellFormed_def nth_list_update dest: lt)
  qed
  show ?thesis
    using cached
    by (simp add: extractBinding_edit_mode extractTwice_null extractBinding_empty)
qed

lemma fixture_wellFormed: "cacheWellFormed fixtureEngine"
  by (simp add: cacheWellFormed_def)

lemma fixtureEditor_fields [simp]:
  "editMode (visOpts fixtureEditor)" "bindingsCache fixtureEditor = Map.empty"
  "parserCalls fixtureEditor = []" "heap fixtureEditor = []"
  by (simp_all add: fixtureEditor_def)

theorem extractBinding_caching_witness:
  "editMode (visOpts fixtureEditor) \<and> ''{a}'' \<noteq> []
   \<and> parserCalls (snd (extractBinding fixture fixtureParser fixtureEditor ''{a}'')) = [''{a}'']
   \<and> bindingsCache (snd (extractBinding fixture fixtureParser fixtureEditor ''{a}'')) = Map.empty
   \<and> \<not> editMode (visOpts fixtureEngine)
   \<and> cacheGet (bindingsCache fixtureEngine) ''{a;pow(x)}'' = Missing
   \<and> fixtureParser ''{a;pow(x)}'' = Some [bindingPow]
   \<and> cacheWellFormed fixtureEngine
   \<and> fst (snd (extractTwice fixture fixtureParser fixtureEngine ''{a;pow(x)}'' [])) = Inr (PList 2)
   \<and> parserCalls (snd (snd (extractTwice fixture fixtureParser fixtureEngine ''{a;pow(x)}'' [])))
       = [''{a;pow(x)}'']
   \<and> heap (snd (snd (extractTwice fixture fixtureParser fixtureEngine ''{a;pow(x)}'' []))) ! 1
       = deepCloneBindings fixture [bindingPow]
   \<and> fixtureParser ''plain text'' = None
   \<and> parserCalls (snd (snd (extractTwice fixture fixtureParser fixtureEngine ''plain text'' [])))
       = [''plain text'', ''plain text'']"
proof -
  have e: "editMode (visOpts fixtureEditor) \<and> ''{a}'' \<noteq> []" by simp
  have n: "\<not> editMode (visOpts fixtureEngine) \<and> ''{a;pow(x)}'' \<noteq> []
      \<and> cacheGet (bindingsCache fixtureEngine) ''{a;pow(x)}'' = Missing
      \<and> fixtureParser ''{a;pow(x)}'' = Some [bindingPow] \<and> cacheWellFormed fixtureEngine"
    by (simp add: cacheGet_fixture fixtureParser_values fixture_wellFormed)
  have p: "\<not> editMode (visOpts fixtureEngine) \<and> ''plain text'' \<noteq> []
      \<and> cacheGet (bindingsCache fixtureEngine) ''plain text'' = Missing
      \<and> fixtureParser ''plain text'' = None"
    by (simp add: cacheGet_fixture fixtureParser_values)
  from extractBinding_caching [of fixtureEditor "''{a}''" fixture fixtureParser Map.empty "[]" "[]" "[]"] e
  have 1: "parserCalls (snd (extractBinding fixture fixtureParser fixtureEditor ''{a}'')) = [''{a}'']"
    "bindingsCache (snd (extractBinding fixture fixtureParser fixtureEditor ''{a}'')) = Map.empty"
    by simp_all
  from extractBinding_caching [of fixtureEngine "''{a;pow(x)}''" fixture fixtureParser Map.empty
      "[bindingPow]" "[]" "[]"] n
  have 2: "fst (snd (extractTwice fixture fixtureParser fixtureEngine ''{a;pow(x)}'' [])) = Inr (PList 2)"
    "parserCalls (snd (snd (extractTwice fixture fixtureParser fixtureEngine ''{a;pow(x)}'' [])))
       = [''{a;pow(x)}'']"
    "heap (snd (snd (extractTwice fixture fixtureParser fixtureEngine ''{a;pow(x)}'' []))) ! 1
       = deepCloneBindings fixture [bindingPow]"
    by auto
  from extractBinding_caching [of fixtureEngine "''plain text''" fixture fixtureParser Map.empty
      "[]" "[]" "[]"] p
  have 3: "parserCalls (snd (snd (extractTwice fixture fixtureParser fixtureEngine ''plain text'' [])))
       = [''plain text'', ''plain text'']"
    by simp
  from e n p 1 2 3 show ?thesis by simp
qed

text \<open>The claim as it was written has two calls in a row out of edit mode invoke the parser
  once for every template, and every call in edit mode invoke it.\<close>

theorem extractBinding_caching_counterexample:
  "\<not> editMode (visOpts fixtureEngine)
   \<and> parserCalls (snd (snd (extractTwice fixture fixtureParser fixtureEngine ''plain text'' [])))
       = [''plain text'', ''plain text'']
   \<and> editMode (visOpts fixtureEditor)
   \<and> parserCalls (snd (extractBinding fixture fixtureParser fixtureEditor [])) = []"
  by (simp add: extractTwice_null cacheGet_fixture fixtureParser_values extractBinding_empty)

text \<open>The stored copy is what \<open>JSON\<close> makes of the parser's list: an argument that is not a
  finite number comes back as \<open>null\<close>.\<close>

lemma deepClone_fixture:
  "deepCloneBindings fixture [bindingPow] =
     [bindingPow\<lparr>operations := Some [\<lparr>op = ''pow'', arg = Null, formula = None\<rparr>]\<rparr>]"
  by (simp add: deepCloneBindings_def cloneBinding_def cloneOperation_def bindingPow_def)



subsection \<open>Further examples\<close>

text \<open>A template that is the name of a method of \<open>Object.prototype\<close> finds that method
  in the cache and fails in \<open>deepClone\<close>.\<close>

lemma formatBinding_inherited_name:
  assumes "\<not> editMode (visOpts st)" and "bindingsCache st ''toString'' = None"
  shows "formatBinding h parse (opts\<lparr>optFormat := ''toString''\<rparr>) st = (Inl SyntaxError, st)"
  using assms
  by (simp add: formatBinding_def extractBinding_def cacheGet_def objectPrototypeMethods_def)

text \<open>The operation \<open>json\<close> finds what a plain object inherits: the path \<open>toString\<close>
  gives a function, which \<open>replace\<close> then calls to get the text for the token.\<close>

lemma json_inherited:
  "applyOperation h opts vals fmt \<lparr>op = ''json'', arg = JStr ''toString'', formula = None\<rparr>
     (JObj [(''a'', JNum (Fin 1))]) st =
     (Inr (JForeign FFunction ''Object.prototype.toString''), st)"
  by (simp add: applyOperation_def Let_def jsonOperation_def getObjPropValue_def toBoolean_def
        typeof_def getProp_def objectPrototypeMethods_def)

lemma replace_by_function:
  "replaceToken h ''x={a}'' ''{a}'' (JForeign FFunction f) =
     andThen (callForeign h (JForeign FFunction f) Undefined [JStr ''{a}'', JNum (Fin 2), JStr ''x={a}''])
       (\<lambda>r. andThen (toStr h r) (\<lambda>t. Inr (''x='' @ t)))"
  by (simp add: replaceToken_def isCallable_def)

text \<open>Some operators on the values the specification names.\<close>

lemma toUpperCase_ff: "toUpperCase ''ff'' = ''FF''"
  by code_simp

lemma hex_examples:
  "applyOperation h opts vals fmt \<lparr>op = ''hex2'', arg = Undefined, formula = None\<rparr> (JNum (Fin 5)) st =
     (Inr (JStr ''05''), st)"
  "applyOperation h opts vals fmt \<lparr>op = ''HEX2'', arg = Undefined, formula = None\<rparr> (JNum (Fin 255)) st =
     (Inr (JStr ''FF''), st)"
  "applyOperation h opts vals fmt \<lparr>op = ''round'', arg = Undefined, formula = None\<rparr> (JNum (Fin 2.5)) st =
     (Inr (JNum (Fin 3)), st)"
  by (simp_all add: applyOperation_def Let_def hexOf_def mathRound_def toHex_def digit_simps
        toUpperCase_ff floor_numeral_div)

end
